theory Spec2Isabelle
  imports Complex_Main
begin

section \<open>Simple kriging (pykrige/sk.py): data model\<close>

text \<open>
  Floating-point numbers are modelled as exact reals, one-dimensional numpy arrays as
  lists, two-dimensional arrays as lists of rows. A variogram function takes the
  parameter list and one distance; numpy applies it elementwise to an array of
  distances. The Python variable \<open>mask\<close> is written \<open>msk\<close>, since \<open>mask\<close> is a
  constant of HOL.
\<close>

type_synonym vec = "real list"
type_synonym matrix = "real list list"
type_synonym variogram = "vec \<Rightarrow> real \<Rightarrow> real"

text \<open>
  One constructor per raise statement of sk.py, then the exceptions raised by numpy
  and scipy operations the code calls, then failures of the collaborators in
  core.py that are not part of sk.py.
\<close>

datatype error =
    UnsupportedVariogramModel
  | CustomFunctionMissing
  | ModelNotApplicable
  | BadStyle
  | MaskMissing
  | MaskDimensions
  | PointDimensions
  | WindowBackendUnsupported
  | BackendUnsupported
  | EmptyArray
  | IndexOutOfRange
  | ShapeMismatch
  | LinAlgError
  | FitError
  | StatisticsError

text \<open>
  The cross-validation statistics (delta, sigma, epsilon, Q1, Q2, cR) are kept as one
  optional value; \<open>None\<close> stands for the six \<open>None\<close> fields of a session built
  without statistics.
\<close>

record statistics =
  delta :: vec
  sigma :: vec
  epsilon :: vec
  Q1 :: real
  Q2 :: real
  cR :: real

record session =
  X_ORIG :: vec
  Y_ORIG :: vec
  Z :: vec
  XCENTER :: real
  YCENTER :: real
  anisotropy_scaling :: real
  anisotropy_angle :: real
  X_ADJUSTED :: vec
  Y_ADJUSTED :: vec
  variogram_model :: string
  variogram_function :: variogram
  lags :: vec
  semivariance :: vec
  semivariance_error :: vec
  variogram_model_parameters :: vec
  stats :: "statistics option"

text \<open>
  The collaborators that sk.py imports and that are not part of it: the anisotropy
  transform, the variogram fit and the statistics of core.py, the five built-in
  variogram functions of variogram_models.py, and scipy's inversion, linear solve
  and k-d tree query. They are parameters of the model. A collaborator that can
  raise returns an option.
\<close>

record externals =
  adjust_for_anisotropy :: "vec \<Rightarrow> vec \<Rightarrow> real \<Rightarrow> real \<Rightarrow> real \<Rightarrow> real \<Rightarrow> vec \<times> vec"
  initialize_variogram_model ::
    "vec \<Rightarrow> vec \<Rightarrow> vec \<Rightarrow> string \<Rightarrow> vec option \<Rightarrow> variogram \<Rightarrow> nat \<Rightarrow> nat \<Rightarrow>
     real option \<Rightarrow> real option \<Rightarrow> (vec \<times> vec \<times> vec \<times> vec) option"
  find_statistics :: "vec \<Rightarrow> vec \<Rightarrow> vec \<Rightarrow> variogram \<Rightarrow> vec \<Rightarrow> statistics option"
  linear_variogram_model :: variogram
  power_variogram_model :: variogram
  gaussian_variogram_model :: variogram
  spherical_variogram_model :: variogram
  exponential_variogram_model :: variogram
  linalg_inv :: "matrix \<Rightarrow> matrix option"
  linalg_solve :: "matrix \<Rightarrow> vec \<Rightarrow> vec option"
  kdtree_query :: "(real \<times> real) list \<Rightarrow> (real \<times> real) list \<Rightarrow> nat \<Rightarrow> matrix \<times> nat list list"

section \<open>numpy and scipy operations\<close>

text \<open>\<open>np.amax\<close> and \<open>np.amin\<close> raise on an empty array.\<close>

fun amax :: "vec \<Rightarrow> error + real" where
  "amax [] = Inl EmptyArray"
| "amax (x # xs) = Inr (fold max xs x)"

fun amin :: "vec \<Rightarrow> error + real" where
  "amin [] = Inl EmptyArray"
| "amin (x # xs) = Inr (fold min xs x)"

text \<open>
  \<open>np.concatenate((u[:, np.newaxis], v[:, np.newaxis]), axis=1)\<close>: the two columns
  must have the same length.
\<close>

definition column_pairs :: "vec \<Rightarrow> vec \<Rightarrow> error + (real \<times> real) list" where
  "column_pairs u v = (if length u \<noteq> length v then Inl ShapeMismatch else Inr (zip u v))"

definition euclidean :: "real \<times> real \<Rightarrow> real \<times> real \<Rightarrow> real" where
  "euclidean p q = sqrt ((fst p - fst q)\<^sup>2 + (snd p - snd q)\<^sup>2)"

definition cdist :: "(real \<times> real) list \<Rightarrow> (real \<times> real) list \<Rightarrow> matrix" where
  "cdist ps qs = map (\<lambda>p. map (euclidean p) qs) ps"

definition dot :: "vec \<Rightarrow> vec \<Rightarrow> real" where
  "dot u v = sum_list (map2 (*) u v)"

section \<open>The kriging matrix\<close>

text \<open>
  \<open>_get_kriging_matrix(self, n)\<close>: the pairwise distances of the working-frame data
  points, then \<open>a[:, :] = parameters[0] - variogram_function(parameters, d)\<close> into an
  \<open>n\<close> by \<open>n\<close> array of zeros. The assignment broadcasts a one by one right-hand side
  and raises on any other shape that is not \<open>n\<close> by \<open>n\<close>. Nothing else is written to
  \<open>a\<close>.
\<close>

definition get_kriging_matrix :: "session \<Rightarrow> nat \<Rightarrow> error + matrix" where
  "get_kriging_matrix s n =
     (case column_pairs (X_ADJUSTED s) (Y_ADJUSTED s) of
        Inl e \<Rightarrow> Inl e
      | Inr xy \<Rightarrow>
          (let d = cdist xy xy in
           case variogram_model_parameters s of
             [] \<Rightarrow> Inl IndexOutOfRange
           | sill # rest \<Rightarrow>
               (let c = map (map (\<lambda>h. sill - variogram_function s (variogram_model_parameters s) h)) d in
                if length xy = n then Inr c
                else if length xy = 1 then Inr (replicate n (replicate n (hd (hd c))))
                else Inl ShapeMismatch)))"

section \<open>Arrays of results\<close>

text \<open>
  A numpy array of results: its shape, its values in row-major order, and the mask
  of a \<open>numpy.ma\<close> masked array (\<open>None\<close> for a plain array). A flag that is
  \<open>True\<close> marks the entry invalid.
\<close>

record nparray =
  dims :: "nat list"
  data :: vec
  ma_mask :: "bool list option"

text \<open>A two-dimensional boolean mask: its shape and its cells in row-major order.\<close>

record mask2d =
  shape0 :: nat
  shape1 :: nat
  cells :: "bool list"

text \<open>\<open>mask.T\<close>, then read in row-major order as \<open>flatten\<close> does.\<close>

definition transpose_mask :: "mask2d \<Rightarrow> mask2d" where
  "transpose_mask m =
     \<lparr>shape0 = shape1 m, shape1 = shape0 m,
      cells = concat (map (\<lambda>c. map (\<lambda>r. cells m ! (r * shape1 m + c)) [0..<shape0 m])
                        [0..<shape1 m])\<rparr>"

text \<open>
  Elementwise product of two one-dimensional arrays with numpy's broadcasting: equal
  lengths, or one of the two of length 1.
\<close>

definition broadcastable :: "nat \<Rightarrow> nat \<Rightarrow> bool" where
  "broadcastable m n = (m = n \<or> m = 1 \<or> n = 1)"

definition multiply :: "vec \<Rightarrow> vec \<Rightarrow> vec" where
  "multiply u v =
     (if length u = length v then map2 (*) u v
      else if length v = 1 then map (\<lambda>a. a * hd v) u
      else map (\<lambda>b. hd u * b) v)"

text \<open>
  Assigning a row of values to a row of \<open>n\<close> zeros (\<open>b[:, 0] = ...\<close>): the same
  length, or a single value that is broadcast.
\<close>

definition assign_row :: "nat \<Rightarrow> vec \<Rightarrow> error + vec" where
  "assign_row n r =
     (if length r = n then Inr r
      else if length r = 1 then Inr (replicate n (hd r))
      else Inl ShapeMismatch)"

text \<open>The same for all rows of a two-dimensional array at once (\<open>b[:, :, 0] = ...\<close>).\<close>

definition assign_rows :: "nat \<Rightarrow> matrix \<Rightarrow> error + matrix" where
  "assign_rows n rs =
     (if list_all (\<lambda>r. length r = n) rs then Inr rs
      else if list_all (\<lambda>r. length r = 1) rs then Inr (map (\<lambda>r. replicate n (hd r)) rs)
      else Inl ShapeMismatch)"

text \<open>\<open>np.nonzero(~mask)[0]\<close>: the indices of the unmasked entries, ascending.\<close>

definition unmasked :: "bool list \<Rightarrow> nat list" where
  "unmasked msk = filter (\<lambda>j. \<not> msk ! j) [0..<length msk]"

text \<open>A \<open>for\<close> loop over a list of indices whose body can raise.\<close>

fun run_loop :: "(nat \<Rightarrow> 'st \<Rightarrow> error + 'st) \<Rightarrow> nat list \<Rightarrow> 'st \<Rightarrow> error + 'st" where
  "run_loop body [] st = Inr st"
| "run_loop body (j # js) st =
     (case body j st of Inl e \<Rightarrow> Inl e | Inr st' \<Rightarrow> run_loop body js st')"

section \<open>The three backends\<close>

text \<open>
  The weights of \<open>_exec_vector\<close>:
  \<open>np.dot(a_inv, b.reshape((npt, n)).T).reshape((1, n, npt)).T\<close>. The product has
  as entry (i, j) the product of row i of \<open>a_inv\<close> with row j of \<open>b\<close>; the
  reshape and the transposition turn it into one row of weights per query point.
  \<open>np.dot\<close> reads the values of \<open>b\<close> and not its mask.
\<close>

definition dense_weights :: "matrix \<Rightarrow> matrix \<Rightarrow> matrix" where
  "dense_weights a_inv b =
     (let xt = map (\<lambda>arow. map (\<lambda>brow. dot arow brow) b) a_inv
      in map (\<lambda>j. map (\<lambda>xrow. xrow ! j) xt) [0..<length b])"

text \<open>
  The first half of \<open>_exec_vector\<close>, up to the weights: the sill, the
  cross-covariances \<open>b\<close> and the weights \<open>x\<close>. The mask is read only for the
  shape it must have when \<open>b\<close> is made a masked array.
\<close>

definition exec_vector_weights ::
  "externals \<Rightarrow> session \<Rightarrow> matrix \<Rightarrow> matrix \<Rightarrow> bool list \<Rightarrow> error + (real \<times> matrix \<times> matrix)" where
  "exec_vector_weights ext s a bd msk =
     (let npt = length bd; n = length (X_ADJUSTED s) in
      case linalg_inv ext a of
        None \<Rightarrow> Inl LinAlgError
      | Some a_inv \<Rightarrow>
          (case variogram_model_parameters s of
             [] \<Rightarrow> Inl IndexOutOfRange
           | sill # rest \<Rightarrow>
               (case assign_rows n
                       (map (map (\<lambda>h. sill - variogram_function s (variogram_model_parameters s) h)) bd) of
                  Inl e \<Rightarrow> Inl e
                | Inr b \<Rightarrow>
                    if list_ex Not msk \<and> length msk \<noteq> npt then Inl ShapeMismatch
                    else if \<not> list_all (\<lambda>row. length row = n) a_inv then Inl ShapeMismatch
                    else if \<not> (length a_inv = n \<or> npt = 0) then Inl ShapeMismatch
                    else Inr (sill, b, dense_weights a_inv b))))"

text \<open>
  \<open>_exec_vector\<close>. When some query point is unmasked, \<open>b\<close> is a masked array
  whose mask repeats the flag of each query point along its row, and the products
  and sums that follow are \<open>numpy.ma\<close> operations: the results carry the mask of
  \<open>b\<close>, a row sum being flagged when every entry of the row is; a sum adds the
  entries that are not masked, so under the flag of a masked point the estimate
  holds 0.0, and the sill minus a masked sum keeps the sill. When every query point
  is masked, \<open>b\<close> stays a plain array and so do the results.
\<close>

definition exec_vector ::
  "externals \<Rightarrow> session \<Rightarrow> matrix \<Rightarrow> matrix \<Rightarrow> bool list \<Rightarrow> error + (nparray \<times> nparray)" where
  "exec_vector ext s a bd msk =
     (let npt = length bd; n = length (X_ADJUSTED s) in
      case exec_vector_weights ext s a bd msk of
        Inl e \<Rightarrow> Inl e
      | Inr w \<Rightarrow>
          (let sill = fst w; b = fst (snd w); x = snd (snd w);
               b_mask = (if list_ex Not msk then Some (map (replicate n) msk) else None);
               flags = map_option (map (list_all (\<lambda>m. m))) b_mask;
               hidden = (if list_ex Not msk then msk else replicate npt False)
           in if \<not> broadcastable n (length (Z s)) then Inl ShapeMismatch
              else Inr
                (\<lparr>dims = [npt],
                  data = map2 (\<lambda>xrow h. if h then 0 else sum_list (multiply xrow (Z s))) x hidden,
                  ma_mask = flags\<rparr>,
                 \<lparr>dims = [npt],
                  data = map2 (\<lambda>xb h. if h then sill
                                       else sill - sum_list (multiply (fst xb) (snd xb)))
                           (zip x b) hidden,
                  ma_mask = flags\<rparr>)))"

text \<open>
  The body of the loop of \<open>_exec_loop\<close> after \<open>bd = bd_all[j]\<close>: the estimate
  and the variance at one query point, from its distances \<open>bd\<close> to the data
  points.
\<close>

definition krige_point :: "session \<Rightarrow> matrix \<Rightarrow> nat \<Rightarrow> vec \<Rightarrow> error + (real \<times> real)" where
  "krige_point s a_inv n bd =
     (case variogram_model_parameters s of
        [] \<Rightarrow> Inl IndexOutOfRange
      | sill # rest \<Rightarrow>
          (case assign_row n
                  (map (\<lambda>h. sill - variogram_function s (variogram_model_parameters s) h) bd) of
             Inl e \<Rightarrow> Inl e
           | Inr b \<Rightarrow>
               if \<not> list_all (\<lambda>row. length row = n) a_inv then Inl ShapeMismatch
               else
                 (let x = map (\<lambda>arow. dot arow b) a_inv in
                  if \<not> broadcastable (length x) (length (Z s)) then Inl ShapeMismatch
                  else if \<not> broadcastable (length x) n then Inl ShapeMismatch
                  else Inr (sum_list (multiply x (Z s)), sill - sum_list (multiply x b)))))"

text \<open>
  The whole body for the query point \<open>j\<close>: \<open>bd_all[j]\<close>, the two values, and their
  assignment to \<open>zvalues[j]\<close> and \<open>sigmasq[j]\<close>.
\<close>

definition exec_loop_body ::
  "session \<Rightarrow> matrix \<Rightarrow> nat \<Rightarrow> matrix \<Rightarrow> nat \<Rightarrow> vec \<times> vec \<Rightarrow> error + (vec \<times> vec)" where
  "exec_loop_body s a_inv n bd_all j st =
     (if length bd_all \<le> j then Inl IndexOutOfRange
      else
        (case krige_point s a_inv n (bd_all ! j) of
           Inl e \<Rightarrow> Inl e
         | Inr v \<Rightarrow> Inr ((fst st)[j := fst v], (snd st)[j := snd v])))"

text \<open>\<open>_exec_loop\<close>: both result arrays start as zeros.\<close>

definition exec_loop ::
  "externals \<Rightarrow> session \<Rightarrow> matrix \<Rightarrow> matrix \<Rightarrow> bool list \<Rightarrow> error + (nparray \<times> nparray)" where
  "exec_loop ext s a bd_all msk =
     (let npt = length bd_all; n = length (X_ADJUSTED s) in
      case linalg_inv ext a of
        None \<Rightarrow> Inl LinAlgError
      | Some a_inv \<Rightarrow>
          (case run_loop (exec_loop_body s a_inv n bd_all) (unmasked msk)
                  (replicate npt 0, replicate npt 0) of
             Inl e \<Rightarrow> Inl e
           | Inr st \<Rightarrow>
               Inr (\<lparr>dims = [npt], data = fst st, ma_mask = None\<rparr>,
                    \<lparr>dims = [npt], data = snd st, ma_mask = None\<rparr>)))"

text \<open>
  \<open>scipy.linalg.solve(a, b)\<close> raises when \<open>a\<close> is not square or has not as many
  rows as \<open>b\<close>; otherwise the collaborator solves, and raises on a singular matrix.
\<close>

definition solve :: "externals \<Rightarrow> matrix \<Rightarrow> vec \<Rightarrow> error + vec" where
  "solve ext a b =
     (if \<not> list_all (\<lambda>row. length row = length a) a then Inl ShapeMismatch
      else if length a \<noteq> length b then Inl ShapeMismatch
      else (case linalg_solve ext a b of None \<Rightarrow> Inl LinAlgError | Some x \<Rightarrow> Inr x))"

text \<open>
  The selector of the reduced system in \<open>_exec_loop_moving_window\<close>:
  \<open>np.concatenate((b_selector, np.array([a_all.shape[0] - 1])))\<close>. For an empty
  \<open>a_all\<close> the last index is outside the array in Python (-1) as it is here (0).
\<close>

definition a_selector :: "matrix \<Rightarrow> nat list \<Rightarrow> nat list" where
  "a_selector a_all b_selector = b_selector @ [length a_all - 1]"

text \<open>\<open>a_all[sel[:, None], sel]\<close>: every index must be inside the array.\<close>

definition submatrix :: "matrix \<Rightarrow> nat list \<Rightarrow> error + matrix" where
  "submatrix a_all sel =
     (if list_all (\<lambda>p. p < length a_all \<and> list_all (\<lambda>q. q < length (a_all ! p)) sel) sel
      then Inr (map (\<lambda>p. map (\<lambda>q. a_all ! p ! q) sel) sel)
      else Inl IndexOutOfRange)"

text \<open>\<open>self.Z[b_selector]\<close>.\<close>

definition take_indices :: "vec \<Rightarrow> nat list \<Rightarrow> error + vec" where
  "take_indices z sel =
     (if list_all (\<lambda>p. p < length z) sel then Inr (map (\<lambda>p. z ! p) sel) else Inl IndexOutOfRange)"

text \<open>\<open>u.dot(v)\<close> of two one-dimensional arrays: the lengths must agree.\<close>

definition vdot :: "vec \<Rightarrow> vec \<Rightarrow> error + real" where
  "vdot u v = (if length u \<noteq> length v then Inl ShapeMismatch else Inr (dot u v))"

text \<open>
  The body of the loop of \<open>_exec_loop_moving_window\<close> for the query point \<open>i\<close>;
  \<open>n\<close> is \<open>bd_idx.shape[1]\<close>.
\<close>

definition moving_window_body ::
  "externals \<Rightarrow> session \<Rightarrow> matrix \<Rightarrow> nat \<Rightarrow> matrix \<Rightarrow> nat list list \<Rightarrow> nat \<Rightarrow> vec \<times> vec \<Rightarrow>
   error + (vec \<times> vec)" where
  "moving_window_body ext s a_all n bd_all bd_idx i st =
     (if length bd_idx \<le> i \<or> length bd_all \<le> i then Inl IndexOutOfRange
      else
        (let b_selector = bd_idx ! i; bd = bd_all ! i in
         case submatrix a_all (a_selector a_all b_selector) of
           Inl e \<Rightarrow> Inl e
         | Inr a \<Rightarrow>
             (case variogram_model_parameters s of
                [] \<Rightarrow> Inl IndexOutOfRange
              | sill # rest \<Rightarrow>
                  (case assign_row n
                          (map (\<lambda>h. sill - variogram_function s (variogram_model_parameters s) h) bd) of
                     Inl e \<Rightarrow> Inl e
                   | Inr b \<Rightarrow>
                       (case solve ext a b of
                          Inl e \<Rightarrow> Inl e
                        | Inr x \<Rightarrow>
                            (case take_indices (Z s) b_selector of
                               Inl e \<Rightarrow> Inl e
                             | Inr zsel \<Rightarrow>
                                 (case vdot x zsel of
                                    Inl e \<Rightarrow> Inl e
                                  | Inr zv \<Rightarrow>
                                      (case vdot x b of
                                         Inl e \<Rightarrow> Inl e
                                       | Inr xb \<Rightarrow>
                                           Inr ((fst st)[i := zv], (snd st)[i := sill - xb])))))))))"

text \<open>
  \<open>_exec_loop_moving_window\<close>. The index array \<open>bd_idx\<close> is two-dimensional, one
  row of \<open>k\<close> neighbour indices per query point.
\<close>

definition exec_loop_moving_window ::
  "externals \<Rightarrow> session \<Rightarrow> matrix \<Rightarrow> matrix \<Rightarrow> bool list \<Rightarrow> nat list list \<Rightarrow>
   error + (nparray \<times> nparray)" where
  "exec_loop_moving_window ext s a_all bd_all msk bd_idx =
     (let npt = length bd_all;
          n = (case bd_idx of [] \<Rightarrow> 0 | r # rs \<Rightarrow> length r)
      in case run_loop (moving_window_body ext s a_all n bd_all bd_idx) (unmasked msk)
                (replicate npt 0, replicate npt 0) of
           Inl e \<Rightarrow> Inl e
         | Inr st \<Rightarrow>
             Inr (\<lparr>dims = [npt], data = fst st, ma_mask = None\<rparr>,
                  \<lparr>dims = [npt], data = snd st, ma_mask = None\<rparr>))"

section \<open>Construction and model update\<close>

text \<open>
  The class attribute \<open>variogram_dict\<close>: the five built-in model names and their
  functions.
\<close>

definition variogram_dict :: "externals \<Rightarrow> string \<Rightarrow> variogram option" where
  "variogram_dict ext name =
     (if name = ''linear'' then Some (linear_variogram_model ext)
      else if name = ''power'' then Some (power_variogram_model ext)
      else if name = ''gaussian'' then Some (gaussian_variogram_model ext)
      else if name = ''spherical'' then Some (spherical_variogram_model ext)
      else if name = ''exponential'' then Some (exponential_variogram_model ext)
      else None)"

text \<open>
  The model check that \<open>__init__\<close> and \<open>update_variogram_model\<close> both make. The
  caller's \<open>variogram_function\<close> is \<open>None\<close> when it is missing or not callable.
\<close>

definition select_variogram_function ::
  "externals \<Rightarrow> string \<Rightarrow> variogram option \<Rightarrow> error + variogram" where
  "select_variogram_function ext vm vf =
     (if variogram_dict ext vm = None \<and> vm \<noteq> ''custom'' then Inl UnsupportedVariogramModel
      else if vm = ''custom'' then
        (case vf of None \<Rightarrow> Inl CustomFunctionMissing | Some f \<Rightarrow> Inr f)
      else
        (case variogram_dict ext vm of
           None \<Rightarrow> Inl UnsupportedVariogramModel
         | Some f \<Rightarrow> Inr f))"

text \<open>
  \<open>__init__\<close>. The arguments \<open>x\<close>, \<open>y\<close>, \<open>z\<close> are one-dimensional, so
  \<open>np.atleast_1d(np.squeeze(np.array(x, copy=True)))\<close> is a copy of \<open>x\<close>. Printing
  and plotting are left out. A raise leaves no session.
\<close>

definition init ::
  "externals \<Rightarrow> vec \<Rightarrow> vec \<Rightarrow> vec \<Rightarrow> string \<Rightarrow> vec option \<Rightarrow> variogram option \<Rightarrow> nat \<Rightarrow> nat \<Rightarrow>
   real \<Rightarrow> real \<Rightarrow> bool \<Rightarrow> real option \<Rightarrow> real option \<Rightarrow> error + session" where
  "init ext x y z vm variogram_parameters vf nlags weight scaling angle enable_statistics
        min_theta max_theta =
     (case amax x of Inl e \<Rightarrow> Inl e | Inr xmax \<Rightarrow>
     (case amin x of Inl e \<Rightarrow> Inl e | Inr xmin \<Rightarrow>
     (case amax y of Inl e \<Rightarrow> Inl e | Inr ymax \<Rightarrow>
     (case amin y of Inl e \<Rightarrow> Inl e | Inr ymin \<Rightarrow>
      (let xcenter = (xmax + xmin) / 2;
           ycenter = (ymax + ymin) / 2;
           adjusted = adjust_for_anisotropy ext x y xcenter ycenter scaling angle
       in (case select_variogram_function ext vm vf of Inl e \<Rightarrow> Inl e | Inr f \<Rightarrow>
          (case initialize_variogram_model ext (fst adjusted) (snd adjusted) z vm
                  variogram_parameters f nlags weight min_theta max_theta of
             None \<Rightarrow> Inl FitError
           | Some (lg, sv, sve, ps) \<Rightarrow>
               (let s = \<lparr>X_ORIG = x, Y_ORIG = y, Z = z,
                         XCENTER = xcenter, YCENTER = ycenter,
                         anisotropy_scaling = scaling, anisotropy_angle = angle,
                         X_ADJUSTED = fst adjusted, Y_ADJUSTED = snd adjusted,
                         variogram_model = vm, variogram_function = f,
                         lags = lg, semivariance = sv, semivariance_error = sve,
                         variogram_model_parameters = ps,
                         stats = None\<rparr>
                in if enable_statistics then
                     (case find_statistics ext (fst adjusted) (snd adjusted) z f ps of
                        None \<Rightarrow> Inl StatisticsError
                      | Some st \<Rightarrow> Inr (s\<lparr>stats := Some st\<rparr>))
                   else Inr s))))))))"

text \<open>
  \<open>update_variogram_model\<close> mutates the session field by field, so a raise leaves
  the fields assigned before it changed: the result is the session after the call
  and the exception, if one was raised. The fit is called without \<open>min_theta\<close> and
  \<open>max_theta\<close>. The defaults of the two anisotropy arguments are 1.0 and 0.0.
\<close>

definition update_variogram_model ::
  "externals \<Rightarrow> session \<Rightarrow> string \<Rightarrow> vec option \<Rightarrow> variogram option \<Rightarrow> nat \<Rightarrow> nat \<Rightarrow>
   real \<Rightarrow> real \<Rightarrow> session \<times> error option" where
  "update_variogram_model ext s vm variogram_parameters vf nlags weight scaling angle =
     (let s1 =
            (if scaling \<noteq> anisotropy_scaling s \<or> angle \<noteq> anisotropy_angle s then
               (let adjusted = adjust_for_anisotropy ext (X_ORIG s) (Y_ORIG s)
                                 (XCENTER s) (YCENTER s) scaling angle
                in s\<lparr>anisotropy_scaling := scaling, anisotropy_angle := angle,
                     X_ADJUSTED := fst adjusted, Y_ADJUSTED := snd adjusted\<rparr>)
             else s);
          s2 = s1\<lparr>variogram_model := vm\<rparr>
      in case select_variogram_function ext vm vf of
           Inl e \<Rightarrow> (s2, Some e)
         | Inr f \<Rightarrow>
             (let s3 = s2\<lparr>variogram_function := f\<rparr>
              in case initialize_variogram_model ext (X_ADJUSTED s3) (Y_ADJUSTED s3) (Z s3) vm
                        variogram_parameters f nlags weight None None of
                   None \<Rightarrow> (s3, Some FitError)
                 | Some (lg, sv, sve, ps) \<Rightarrow>
                     (let s4 = s3\<lparr>lags := lg, semivariance := sv, semivariance_error := sve,
                                   variogram_model_parameters := ps\<rparr>
                      in case find_statistics ext (X_ADJUSTED s4) (Y_ADJUSTED s4) (Z s4) f ps of
                           None \<Rightarrow> (s4, Some StatisticsError)
                         | Some st \<Rightarrow> (s4\<lparr>stats := Some st\<rparr>, None))))"

text \<open>The call that passes no anisotropy arguments.\<close>

definition update_variogram_model_default ::
  "externals \<Rightarrow> session \<Rightarrow> string \<Rightarrow> vec option \<Rightarrow> variogram option \<Rightarrow> nat \<Rightarrow> nat \<Rightarrow>
   session \<times> error option" where
  "update_variogram_model_default ext s vm variogram_parameters vf nlags weight =
     update_variogram_model ext s vm variogram_parameters vf nlags weight 1 0"

section \<open>The query surface\<close>

text \<open>
  The mask check of \<open>execute\<close> for the style \<open>masked\<close>: the flattened mask the
  backends get.
\<close>

definition check_mask :: "mask2d option \<Rightarrow> nat \<Rightarrow> nat \<Rightarrow> error + bool list" where
  "check_mask msk ny nx =
     (case msk of
        None \<Rightarrow> Inl MaskMissing
      | Some m \<Rightarrow>
          if shape0 m \<noteq> ny \<or> shape1 m \<noteq> nx then
            (if shape0 m = nx \<and> shape1 m = ny then Inr (cells (transpose_mask m))
             else Inl MaskDimensions)
          else Inr (cells m))"

text \<open>
  The query set of \<open>execute\<close>: the x and y coordinates of the query points, their
  number, and the flattened mask for the style \<open>masked\<close>.
  \<open>np.meshgrid(xpts, ypts)\<close> repeats the x axis in every row and one y value along
  each row.
\<close>

definition query_set ::
  "string \<Rightarrow> vec \<Rightarrow> vec \<Rightarrow> mask2d option \<Rightarrow> error + (vec \<times> vec \<times> nat \<times> bool list option)" where
  "query_set style xpts ypts msk =
     (let nx = length xpts; ny = length ypts in
      if style = ''grid'' \<or> style = ''masked'' then
        (case (if style = ''masked'' then map_sum id Some (check_mask msk ny nx) else Inr None) of
           Inl e \<Rightarrow> Inl e
         | Inr flat \<Rightarrow>
             Inr (concat (replicate ny xpts), concat (map (replicate nx) ypts), ny * nx, flat))
      else if style = ''points'' then
        (if nx \<noteq> ny then Inl PointDimensions else Inr (xpts, ypts, nx, None))
      else Inl BadStyle)"

text \<open>The choice of the backend at the end of \<open>execute\<close>.\<close>

definition run_backend ::
  "externals \<Rightarrow> session \<Rightarrow> matrix \<Rightarrow> (real \<times> real) list \<Rightarrow> (real \<times> real) list \<Rightarrow> bool list \<Rightarrow>
   string \<Rightarrow> nat option \<Rightarrow> error + (nparray \<times> nparray)" where
  "run_backend ext s a xy_points xy_data msk backend n_closest_points =
     (case n_closest_points of
        Some k \<Rightarrow>
          (let q = kdtree_query ext xy_data xy_points k in
           if backend = ''loop'' then exec_loop_moving_window ext s a (fst q) msk (snd q)
           else Inl WindowBackendUnsupported)
      | None \<Rightarrow>
          (let bd = cdist xy_points xy_data in
           if backend = ''vectorized'' then exec_vector ext s a bd msk
           else if backend = ''loop'' then exec_loop ext s a bd msk
           else Inl BackendUnsupported))"

text \<open>
  \<open>np.ma.array(values, mask=mask)\<close>: the mask must have the size of the values; a
  mask the values already carry is kept, flag by flag.
\<close>

definition ma_array :: "nparray \<Rightarrow> bool list \<Rightarrow> error + nparray" where
  "ma_array v msk =
     (if length (data v) \<noteq> length msk then Inl ShapeMismatch
      else Inr (v\<lparr>ma_mask :=
                   Some (case ma_mask v of None \<Rightarrow> msk | Some m0 \<Rightarrow> map2 (\<or>) m0 msk)\<rparr>))"

text \<open>\<open>values.reshape((ny, nx))\<close>: the size must be \<open>ny * nx\<close>.\<close>

definition reshape :: "nparray \<Rightarrow> nat \<Rightarrow> nat \<Rightarrow> error + nparray" where
  "reshape v ny nx =
     (if length (data v) \<noteq> ny * nx then Inl ShapeMismatch
      else Inr (v\<lparr>dims := [ny, nx]\<rparr>))"

text \<open>The last lines of \<open>execute\<close>, for one of the two result arrays.\<close>

definition finish :: "string \<Rightarrow> bool list \<Rightarrow> nat \<Rightarrow> nat \<Rightarrow> nparray \<Rightarrow> error + nparray" where
  "finish style msk ny nx v =
     (case (if style = ''masked'' then ma_array v msk else Inr v) of
        Inl e \<Rightarrow> Inl e
      | Inr w \<Rightarrow> if style = ''masked'' \<or> style = ''grid'' then reshape w ny nx else Inr w)"

text \<open>
  The second half of \<open>execute\<close>, from the pairing of the working-frame
  coordinates to the return: \<open>xa\<close> and \<open>ya\<close> are the adjusted query
  coordinates, \<open>msk1\<close> the flat mask the backends get.
\<close>

definition krige_queries ::
  "externals \<Rightarrow> session \<Rightarrow> string \<Rightarrow> nat \<Rightarrow> nat \<Rightarrow> matrix \<Rightarrow> vec \<Rightarrow> vec \<Rightarrow> bool list \<Rightarrow> string \<Rightarrow>
   nat option \<Rightarrow> error + (nparray \<times> nparray)" where
  "krige_queries ext s style ny nx a xa ya msk1 backend n_closest_points =
     (case column_pairs xa ya of
        Inl e \<Rightarrow> Inl e
      | Inr xy_points \<Rightarrow>
          (case column_pairs (X_ADJUSTED s) (Y_ADJUSTED s) of
             Inl e \<Rightarrow> Inl e
           | Inr xy_data \<Rightarrow>
               (case run_backend ext s a xy_points xy_data msk1 backend n_closest_points of
                  Inl e \<Rightarrow> Inl e
                | Inr r \<Rightarrow>
                    (case finish style msk1 ny nx (fst r) of
                       Inl e \<Rightarrow> Inl e
                     | Inr zvalues \<Rightarrow>
                         (case finish style msk1 ny nx (snd r) of
                            Inl e \<Rightarrow> Inl e
                          | Inr sigmasq \<Rightarrow> Inr (zvalues, sigmasq))))))"

text \<open>
  \<open>execute\<close>. The query coordinates are one-dimensional arrays, so
  \<open>np.atleast_1d(np.squeeze(np.array(xpoints, copy=True)))\<close> is a copy of them.
  Printing is left out.
\<close>

definition execute ::
  "externals \<Rightarrow> session \<Rightarrow> string \<Rightarrow> vec \<Rightarrow> vec \<Rightarrow> mask2d option \<Rightarrow> string \<Rightarrow> nat option \<Rightarrow>
   error + (nparray \<times> nparray)" where
  "execute ext s style xpoints ypoints msk backend n_closest_points =
     (if variogram_model s = ''linear'' \<or> variogram_model s = ''power'' then Inl ModelNotApplicable
      else if style \<noteq> ''grid'' \<and> style \<noteq> ''masked'' \<and> style \<noteq> ''points'' then Inl BadStyle
      else
        (let n = length (X_ADJUSTED s); nx = length xpoints; ny = length ypoints in
         case get_kriging_matrix s n of
           Inl e \<Rightarrow> Inl e
         | Inr a \<Rightarrow>
             (case query_set style xpoints ypoints msk of
                Inl e \<Rightarrow> Inl e
              | Inr q \<Rightarrow>
                  (let xpts = fst q; ypts = fst (snd q); npt = fst (snd (snd q));
                       flat = snd (snd (snd q));
                       adjusted = adjust_for_anisotropy ext xpts ypts (XCENTER s) (YCENTER s)
                                    (anisotropy_scaling s) (anisotropy_angle s);
                       msk1 = (if style \<noteq> ''masked'' then replicate npt False
                               else (case flat of None \<Rightarrow> [] | Some f \<Rightarrow> f))
                   in krige_queries ext s style ny nx a (fst adjusted) (snd adjusted) msk1
                        backend n_closest_points))))"


text \<open>
  A spherical variogram written as a caller-supplied function of the parameters
  \<open>[sill, range, nugget]\<close>, for concrete evaluations.
\<close>

definition spherical :: variogram where
  "spherical p h =
     (if h \<le> p ! 1
      then (p ! 0 - p ! 2) * ((3 * h) / (2 * p ! 1) - h ^ 3 / (2 * (p ! 1) ^ 3)) + p ! 2
      else p ! 0)"

text \<open>
  A session over the data points (0,0,1) and (1,0,2) with the spherical function as
  a custom model, sill 2, range 2, nugget 0, no anisotropy.
\<close>

definition two_point_session :: session where
  "two_point_session =
     \<lparr>X_ORIG = [0, 1], Y_ORIG = [0, 0], Z = [1, 2],
      XCENTER = 1 / 2, YCENTER = 0,
      anisotropy_scaling = 1, anisotropy_angle = 0,
      X_ADJUSTED = [0, 1], Y_ADJUSTED = [0, 0],
      variogram_model = ''custom'', variogram_function = spherical,
      lags = [], semivariance = [], semivariance_error = [],
      variogram_model_parameters = [2, 2, 0],
      stats = None\<rparr>"

section \<open>Stand-ins for the collaborators, for concrete evaluations\<close>

text \<open>
  Modelled from the spec: the anisotropy transform of core.py, which is not part of
  sk.py. Section 4.1: rotate the points clockwise by \<open>angle\<close> degrees about the
  center, then stretch the rotated y axis by \<open>scaling\<close>.
\<close>

definition rotate_stretch :: "real \<Rightarrow> real \<Rightarrow> real \<Rightarrow> real \<Rightarrow> real \<times> real \<Rightarrow> real \<times> real" where
  "rotate_stretch xc yc scaling angle p =
     (let t = - (angle * pi / 180); dx = fst p - xc; dy = snd p - yc
      in (cos t * dx - sin t * dy + xc, scaling * (sin t * dx + cos t * dy) + yc))"

definition transform :: "vec \<Rightarrow> vec \<Rightarrow> real \<Rightarrow> real \<Rightarrow> real \<Rightarrow> real \<Rightarrow> vec \<times> vec" where
  "transform x y xc yc scaling angle =
     (map (\<lambda>i. fst (rotate_stretch xc yc scaling angle (x ! i, y ! i))) [0..<length x],
      map (\<lambda>i. snd (rotate_stretch xc yc scaling angle (x ! i, y ! i))) [0..<length y])"

text \<open>
  Modelled from the spec: the variogram fit of core.py, which is not part of sk.py.
  Section 6 gives the fit the working-frame points of a point set and their values,
  and section 3 gives a point set three arrays of one length, at least 2; section 6
  names no failure but an unknown model name and a custom model without a function,
  both checked by sk.py before the call. What the fit does with arrays that are not
  a point set is not specified, nor are the fitting algorithm and the lag data. So
  this stand-in returns on point sets only, where it hands back the caller's
  explicit parameters with empty lag data, and fits nothing.
\<close>

definition explicit_parameters ::
  "vec \<Rightarrow> vec \<Rightarrow> vec \<Rightarrow> string \<Rightarrow> vec option \<Rightarrow> variogram \<Rightarrow> nat \<Rightarrow> nat \<Rightarrow>
   real option \<Rightarrow> real option \<Rightarrow> (vec \<times> vec \<times> vec \<times> vec) option" where
  "explicit_parameters xa ya z vm ps f nlags weight lo hi =
     (if length xa = length ya \<and> length ya = length z \<and> 2 \<le> length z
      then (case ps of None \<Rightarrow> None | Some p \<Rightarrow> Some ([], [], [], p))
      else None)"

text \<open>A stand-in for the statistics of core.py: it reports no residuals.\<close>

definition no_residuals :: "vec \<Rightarrow> vec \<Rightarrow> vec \<Rightarrow> variogram \<Rightarrow> vec \<Rightarrow> statistics option" where
  "no_residuals xa ya z f ps =
     Some \<lparr>delta = [], sigma = [], epsilon = [], Q1 = 0, Q2 = 0, cR = 0\<rparr>"

text \<open>
  Inversion and linear solve of one by one and two by two systems by the closed
  formula; a singular matrix raises, a larger one is outside this stand-in.
\<close>

fun small_inv :: "matrix \<Rightarrow> matrix option" where
  "small_inv [[a]] = (if a = 0 then None else Some [[1 / a]])"
| "small_inv [[a, b], [c, d]] =
     (if a * d - b * c = 0 then None
      else Some [[d / (a * d - b * c), - b / (a * d - b * c)],
                 [- c / (a * d - b * c), a / (a * d - b * c)]])"
| "small_inv m = None"

definition small_solve :: "matrix \<Rightarrow> vec \<Rightarrow> vec option" where
  "small_solve a b = (case small_inv a of None \<Rightarrow> None | Some ai \<Rightarrow> Some (map (\<lambda>r. dot r b) ai))"

text \<open>Nearest neighbours by sorting the data indices on their distance to the query point.\<close>

definition nearest :: "(real \<times> real) list \<Rightarrow> (real \<times> real) list \<Rightarrow> nat \<Rightarrow> matrix \<times> nat list list" where
  "nearest xy_data xy_points k =
     (let idx = map (\<lambda>p. take k (sort_key (\<lambda>i. euclidean p (xy_data ! i)) [0..<length xy_data]))
                  xy_points
      in (map2 (\<lambda>p is. map (\<lambda>i. euclidean p (xy_data ! i)) is) xy_points idx, idx))"

definition linear_model :: variogram where
  "linear_model p h = p ! 0 * h + p ! 1"

definition power_model :: variogram where
  "power_model p h = p ! 0 * (h powr (p ! 1)) + p ! 2"

definition gaussian_model :: variogram where
  "gaussian_model p h = (p ! 0 - p ! 2) * (1 - exp (- (h\<^sup>2) / (p ! 1 * 4 / 7)\<^sup>2)) + p ! 2"

definition exponential_model :: variogram where
  "exponential_model p h = (p ! 0 - p ! 2) * (1 - exp (- h / (p ! 1 / 3))) + p ! 2"

definition standins :: externals where
  "standins =
     \<lparr>adjust_for_anisotropy = transform,
      initialize_variogram_model = explicit_parameters,
      find_statistics = no_residuals,
      linear_variogram_model = linear_model,
      power_variogram_model = power_model,
      gaussian_variogram_model = gaussian_model,
      spherical_variogram_model = spherical,
      exponential_variogram_model = exponential_model,
      linalg_inv = small_inv,
      linalg_solve = small_solve,
      kdtree_query = nearest\<rparr>"

text \<open>The same session with a nugget of 1/2.\<close>

definition nugget_session :: session where
  "nugget_session = two_point_session\<lparr>variogram_model_parameters := [2, 2, 1 / 2]\<rparr>"

text \<open>A session over three data points on a line, (0,0,1), (1,0,2) and (2,0,3).\<close>

definition three_point_session :: session where
  "three_point_session =
     two_point_session\<lparr>X_ORIG := [0, 1, 2], Y_ORIG := [0, 0, 0], Z := [1, 2, 3], XCENTER := 1,
       X_ADJUSTED := [0, 1, 2], Y_ADJUSTED := [0, 0, 0]\<rparr>"

section \<open>Assumptions on the collaborators\<close>

text \<open>
  The anisotropy transform returns as many coordinates as it was given, and the k-d
  tree query returns one row of distances per query point.
\<close>

definition shape_preserving :: "externals \<Rightarrow> bool" where
  "shape_preserving ext \<longleftrightarrow>
     (\<forall>x y xc yc scaling angle.
        length (fst (adjust_for_anisotropy ext x y xc yc scaling angle)) = length x
        \<and> length (snd (adjust_for_anisotropy ext x y xc yc scaling angle)) = length y)
     \<and> (\<forall>xy_data xy_points k. length (fst (kdtree_query ext xy_data xy_points k)) = length xy_points)"

text \<open>
  The inverse that \<open>scipy.linalg.inv\<close> returns for a non-singular matrix: a
  square matrix whose product with column \<open>i\<close> of \<open>a\<close> is the \<open>i\<close>-th unit
  vector.
\<close>

definition unit_vector :: "nat \<Rightarrow> nat \<Rightarrow> vec" where
  "unit_vector n i = map (\<lambda>r. if r = i then 1 else 0) [0..<n]"

definition is_inverse :: "matrix \<Rightarrow> matrix \<Rightarrow> bool" where
  "is_inverse ai a \<longleftrightarrow>
     length ai = length a \<and> list_all (\<lambda>row. length row = length a) ai
     \<and> (\<forall>i < length a. map (\<lambda>arow. dot arow (map (\<lambda>row. row ! i) a)) ai = unit_vector (length a) i)"

section \<open>Properties\<close>

lemma euclidean_self: "euclidean p p = 0"
  by (simp add: euclidean_def)

lemma amax_Inr: "amax x = Inr m \<Longrightarrow> x \<noteq> []"
  by (cases x) auto

lemma transform_identity:
  "length x = length y \<Longrightarrow> transform x y xc yc 1 0 = (x, y)"
proof -
  assume l: "length x = length y"
  have "map (\<lambda>i. x ! i) [0..<length x] = x" and "map (\<lambda>i. y ! i) [0..<length y] = y"
    by (rule map_nth)+
  then show ?thesis
    by (simp add: transform_def rotate_stretch_def)
qed

subsection \<open>The kriging matrix\<close>

lemma two_point_fields:
  "X_ADJUSTED two_point_session = [0, 1]" "Y_ADJUSTED two_point_session = [0, 0]"
  "Z two_point_session = [1, 2]" "variogram_model_parameters two_point_session = [2, 2, 0]"
  "variogram_function two_point_session = spherical"
  "variogram_model two_point_session = ''custom''"
  "XCENTER two_point_session = 1 / 2" "YCENTER two_point_session = 0"
  "anisotropy_scaling two_point_session = 1" "anisotropy_angle two_point_session = 0"
  by (simp_all add: two_point_session_def)

lemma standins_fields:
  "linalg_inv standins = small_inv" "adjust_for_anisotropy standins = transform"
  "linalg_solve standins = small_solve" "kdtree_query standins = nearest"
  by (simp_all add: standins_def)

lemma spherical_220: "spherical [2, 2, 0] 0 = 0" "spherical [2, 2, 0] 1 = 11 / 8"
  by (simp_all add: spherical_def power3_eq_cube)

lemma two_point_matrix:
  "get_kriging_matrix two_point_session (Suc (Suc 0)) = Inr [[2, 5 / 8], [5 / 8, 2]]"
  by (simp add: get_kriging_matrix_def two_point_fields spherical_220 column_pairs_def cdist_def
      euclidean_def)


subsection \<open>The model check of execute\<close>

lemma run_loop_error_in:
  assumes "\<And>j st e. body j st = Inl e \<Longrightarrow> e \<in> S" "run_loop body js st = Inl e"
  shows "e \<in> S"
  using assms by (induction js arbitrary: st) (auto split: sum.splits)

lemma krige_point_errors:
  "krige_point s ai n bd = Inl e \<Longrightarrow> e \<in> {IndexOutOfRange, ShapeMismatch}"
  by (auto simp: krige_point_def assign_row_def Let_def split: list.splits sum.splits if_splits)

lemma exec_loop_body_errors:
  "exec_loop_body s ai n bd j st = Inl e \<Longrightarrow> e \<in> {IndexOutOfRange, ShapeMismatch}"
  using krige_point_errors [of s ai n "bd ! j" e]
  by (auto simp: exec_loop_body_def split: sum.splits if_splits)

lemma exec_loop_errors:
  assumes "exec_loop ext s a bd msk = Inl e"
  shows "e \<in> {IndexOutOfRange, ShapeMismatch, LinAlgError}"
proof (cases "linalg_inv ext a")
  case None
  with assms show ?thesis by (simp add: exec_loop_def)
next
  case (Some ai)
  with assms have "run_loop (exec_loop_body s ai (length (X_ADJUSTED s)) bd) (unmasked msk)
      (replicate (length bd) 0, replicate (length bd) 0) = Inl e"
    by (auto simp: exec_loop_def Let_def split: sum.splits)
  from run_loop_error_in [OF _ this, of "{IndexOutOfRange, ShapeMismatch}"] exec_loop_body_errors
  show ?thesis by blast
qed

lemma exec_vector_errors:
  "exec_vector ext s a bd msk = Inl e \<Longrightarrow> e \<in> {IndexOutOfRange, ShapeMismatch, LinAlgError}"
  by (auto simp: exec_vector_def exec_vector_weights_def dense_weights_def assign_rows_def Let_def
      split: option.splits list.splits sum.splits if_splits)

lemma moving_window_body_errors:
  "moving_window_body ext s a n bd idx i st = Inl e
   \<Longrightarrow> e \<in> {IndexOutOfRange, ShapeMismatch, LinAlgError}"
  by (auto simp: moving_window_body_def assign_row_def submatrix_def solve_def
      take_indices_def vdot_def Let_def split: sum.splits option.splits list.splits if_splits)

lemma moving_window_errors:
  assumes "exec_loop_moving_window ext s a bd msk idx = Inl e"
  shows "e \<in> {IndexOutOfRange, ShapeMismatch, LinAlgError}"
proof -
  from assms obtain n where "run_loop (moving_window_body ext s a n bd idx) (unmasked msk)
      (replicate (length bd) 0, replicate (length bd) 0) = Inl e"
    by (auto simp: exec_loop_moving_window_def Let_def split: sum.splits)
  from run_loop_error_in [OF _ this, of "{IndexOutOfRange, ShapeMismatch, LinAlgError}"]
    moving_window_body_errors
  show ?thesis by blast
qed

lemma run_backend_errors:
  assumes "run_backend ext s a xp xd msk backend k = Inl e"
  shows "e \<in> {IndexOutOfRange, ShapeMismatch, LinAlgError, WindowBackendUnsupported,
               BackendUnsupported}"
  using assms exec_vector_errors [of ext s a _ msk e] exec_loop_errors [of ext s a _ msk e]
    moving_window_errors [of ext s a _ msk _ e]
  by (auto simp: run_backend_def Let_def split: option.splits if_splits)

lemma finish_errors: "finish style msk ny nx v = Inl e \<Longrightarrow> e = ShapeMismatch"
  by (auto simp: finish_def ma_array_def reshape_def split: sum.splits if_splits)

lemma column_pairs_errors: "column_pairs u v = Inl e \<Longrightarrow> e = ShapeMismatch"
  by (auto simp: column_pairs_def split: if_splits)

lemma get_kriging_matrix_errors:
  "get_kriging_matrix s n = Inl e \<Longrightarrow> e \<in> {IndexOutOfRange, ShapeMismatch}"
  by (auto simp: get_kriging_matrix_def column_pairs_def Let_def
      split: sum.splits list.splits if_splits)

lemma query_set_errors:
  "query_set style xp yp msk = Inl e
   \<Longrightarrow> e \<in> {MaskMissing, MaskDimensions, PointDimensions, BadStyle}"
  by (auto simp: query_set_def check_mask_def Let_def map_sum_def
      split: sum.splits option.splits if_splits)

lemma krige_queries_errors:
  assumes "krige_queries ext s style ny nx a xa ya msk1 backend k = Inl e"
  shows "e \<in> {IndexOutOfRange, ShapeMismatch, LinAlgError, WindowBackendUnsupported,
               BackendUnsupported}"
proof (cases "column_pairs xa ya")
  case (Inl e1)
  with assms column_pairs_errors [of xa ya e1] show ?thesis
    by (simp add: krige_queries_def)
next
  case p: (Inr xy_points)
  show ?thesis
  proof (cases "column_pairs (X_ADJUSTED s) (Y_ADJUSTED s)")
    case (Inl e1)
    with assms p column_pairs_errors [of "X_ADJUSTED s" "Y_ADJUSTED s" e1] show ?thesis
      by (simp add: krige_queries_def)
  next
    case d: (Inr xy_data)
    show ?thesis
    proof (cases "run_backend ext s a xy_points xy_data msk1 backend k")
      case (Inl e1)
      with assms p d run_backend_errors [of ext s a xy_points xy_data msk1 backend k e1]
      show ?thesis by (simp add: krige_queries_def)
    next
      case r: (Inr r)
      show ?thesis
      proof (cases "finish style msk1 ny nx (fst r)")
        case (Inl e1)
        with assms p d r finish_errors [of style msk1 ny nx "fst r" e1] show ?thesis
          by (simp add: krige_queries_def)
      next
        case z: (Inr zv)
        with assms p d r finish_errors [of style msk1 ny nx "snd r" e] show ?thesis
          by (auto simp: krige_queries_def split: sum.splits)
      qed
    qed
  qed
qed

text \<open>The steps of \<open>execute\<close> once the model and the style have passed their checks.\<close>

lemma execute_unfold:
  assumes "variogram_model s \<noteq> ''linear''" "variogram_model s \<noteq> ''power''"
    and "get_kriging_matrix s (length (X_ADJUSTED s)) = Inr a"
    and "query_set style xp yp msk = Inr (xpts, ypts, npt, flat)"
  shows "execute ext s style xp yp msk backend k =
     krige_queries ext s style (length yp) (length xp) a
       (fst (adjust_for_anisotropy ext xpts ypts (XCENTER s) (YCENTER s)
              (anisotropy_scaling s) (anisotropy_angle s)))
       (snd (adjust_for_anisotropy ext xpts ypts (XCENTER s) (YCENTER s)
              (anisotropy_scaling s) (anisotropy_angle s)))
       (if style \<noteq> ''masked'' then replicate npt False
        else (case flat of None \<Rightarrow> [] | Some f \<Rightarrow> f))
       backend k"
proof -
  from assms(4) have "style = ''grid'' \<or> style = ''masked'' \<or> style = ''points''"
    by (auto simp: query_set_def Let_def split: if_splits)
  with assms show ?thesis
    by (auto simp: execute_def Let_def)
qed

text \<open>Every exception of \<open>execute\<close> but the first comes after the model check.\<close>

lemma execute_errors:
  assumes "execute ext s style xp yp msk backend k = Inl e" and "e = ModelNotApplicable"
  shows "variogram_model s = ''linear'' \<or> variogram_model s = ''power''"
proof (rule ccontr)
  assume n: "\<not> (variogram_model s = ''linear'' \<or> variogram_model s = ''power'')"
  show False
  proof (cases "get_kriging_matrix s (length (X_ADJUSTED s))")
    case (Inl e1)
    with assms n get_kriging_matrix_errors [of s "length (X_ADJUSTED s)" e1] show False
      by (auto simp: execute_def Let_def split: if_splits)
  next
    case a: (Inr a)
    show False
    proof (cases "query_set style xp yp msk")
      case (Inl e1)
      with assms n a query_set_errors [of style xp yp msk e1] show False
        by (auto simp: execute_def Let_def split: if_splits)
    next
      case (Inr q)
      obtain xpts ypts npt flat where q: "q = (xpts, ypts, npt, flat)" by (cases q) auto
      from execute_unfold [OF _ _ a Inr [unfolded q], of ext backend k] n assms
        krige_queries_errors [of ext s style "length yp" "length xp" a _ _ _ backend k e]
      show False by auto
    qed
  qed
qed

text \<open>
  C3. For a session whose variogram model is \<open>linear\<close> or \<open>power\<close>, every call of
  \<open>execute\<close>, whatever its style, query points, mask, backend and neighbourhood
  size, raises the model-inapplicability error and returns nothing; for every other
  model no call of \<open>execute\<close> raises that error.
\<close>

theorem execute_model_check:
  "(variogram_model s = ''linear'' \<or> variogram_model s = ''power''
      \<longrightarrow> execute ext s style xp yp msk backend k = Inl ModelNotApplicable)
   \<and> (variogram_model s \<noteq> ''linear'' \<and> variogram_model s \<noteq> ''power''
      \<longrightarrow> execute ext s style xp yp msk backend k \<noteq> Inl ModelNotApplicable)"
proof (intro conjI impI)
  assume "variogram_model s = ''linear'' \<or> variogram_model s = ''power''"
  then show "execute ext s style xp yp msk backend k = Inl ModelNotApplicable"
    by (auto simp: execute_def)
next
  assume "variogram_model s \<noteq> ''linear'' \<and> variogram_model s \<noteq> ''power''"
  then show "execute ext s style xp yp msk backend k \<noteq> Inl ModelNotApplicable"
    using execute_errors [of ext s style xp yp msk backend k ModelNotApplicable] by auto
qed

lemma vector_at_origin:
  "exec_vector standins two_point_session [[2, 5 / 8], [5 / 8, 2]] [[0, 1]] [False] =
     Inr (\<lparr>dims = [1], data = [1], ma_mask = Some [False]\<rparr>,
          \<lparr>dims = [1], data = [0], ma_mask = Some [False]\<rparr>)"
  by (simp add: exec_vector_def exec_vector_weights_def dense_weights_def two_point_fields standins_fields spherical_220 assign_rows_def
      broadcastable_def multiply_def dot_def Let_def)

lemma loop_at_origin:
  "exec_loop standins two_point_session [[2, 5 / 8], [5 / 8, 2]] [[0, 1]] [False] =
     Inr (\<lparr>dims = [1], data = [1], ma_mask = None\<rparr>,
          \<lparr>dims = [1], data = [0], ma_mask = None\<rparr>)"
  by (simp add: exec_loop_def exec_loop_body_def krige_point_def unmasked_def two_point_fields
      standins_fields spherical_220 assign_row_def broadcastable_def multiply_def dot_def Let_def)

lemma execute_points_origin:
  "execute standins two_point_session ''points'' [0] [0] None ''vectorized'' None =
     Inr (\<lparr>dims = [1], data = [1], ma_mask = Some [False]\<rparr>,
          \<lparr>dims = [1], data = [0], ma_mask = Some [False]\<rparr>)"
  by (simp add: execute_def two_point_matrix two_point_fields standins_fields query_set_def
      krige_queries_def transform_identity column_pairs_def run_backend_def cdist_def
      euclidean_def vector_at_origin finish_def Let_def)

theorem execute_model_check_witness:
  "execute standins (two_point_session\<lparr>variogram_model := ''linear''\<rparr>) ''points'' [0] [0] None
     ''vectorized'' None = Inl ModelNotApplicable
   \<and> execute standins two_point_session ''points'' [0] [0] None ''vectorized'' None
     \<noteq> Inl ModelNotApplicable"
  using execute_model_check [of "two_point_session\<lparr>variogram_model := ''linear''\<rparr>" standins
      "''points''" "[0]" "[0]" None "''vectorized''" None]
    execute_model_check [of two_point_session standins
      "''points''" "[0]" "[0]" None "''vectorized''" None]
  by (simp add: two_point_fields)

subsection \<open>The dense and the point-loop backend\<close>

lemma assign_rows_row:
  assumes "assign_rows n rs = Inr b" "j < length rs"
  shows "assign_row n (rs ! j) = Inr (b ! j)"
  using assms
  by (auto simp: assign_rows_def assign_row_def list_all_length split: if_splits)

lemma assign_rows_length:
  assumes "assign_rows n rs = Inr b"
  shows "length b = length rs"
  using assms by (auto simp: assign_rows_def split: if_splits)

lemma assign_row_length:
  assumes "assign_row n r = Inr b"
  shows "length b = n"
  using assms by (auto simp: assign_row_def split: if_splits)

lemma exec_loop_body_Inr:
  assumes "exec_loop_body s ai n bd j st = Inr st'"
  shows "j < length bd \<and> (\<exists>v. krige_point s ai n (bd ! j) = Inr v
           \<and> st' = ((fst st)[j := fst v], (snd st)[j := snd v]))"
  using assms by (auto simp: exec_loop_body_def split: if_splits sum.splits)

lemma run_loop_untouched:
  assumes "run_loop (exec_loop_body s ai n bd) js st = Inr st'" "j \<notin> set js"
  shows "fst st' ! j = fst st ! j \<and> snd st' ! j = snd st ! j"
  using assms
proof (induction js arbitrary: st)
  case Nil
  then show ?case by simp
next
  case (Cons i js)
  then obtain st1 where b: "exec_loop_body s ai n bd i st = Inr st1"
    and r: "run_loop (exec_loop_body s ai n bd) js st1 = Inr st'"
    by (auto split: sum.splits)
  from Cons.prems have ne: "i \<noteq> j" and nin: "j \<notin> set js" by auto
  from exec_loop_body_Inr [OF b] ne have "fst st1 ! j = fst st ! j" "snd st1 ! j = snd st ! j"
    by auto
  with Cons.IH [OF r nin] show ?case by simp
qed

lemma run_loop_visited:
  assumes "run_loop (exec_loop_body s ai n bd) js st = Inr st'" "j \<in> set js"
    "j < length (fst st)" "j < length (snd st)"
  shows "krige_point s ai n (bd ! j) = Inr (fst st' ! j, snd st' ! j)"
  using assms
proof (induction js arbitrary: st)
  case Nil
  then show ?case by simp
next
  case (Cons i js)
  then obtain st1 where b: "exec_loop_body s ai n bd i st = Inr st1"
    and r: "run_loop (exec_loop_body s ai n bd) js st1 = Inr st'"
    by (auto split: sum.splits)
  from exec_loop_body_Inr [OF b] obtain v where
    v: "krige_point s ai n (bd ! i) = Inr v" and
    st1: "st1 = ((fst st)[i := fst v], (snd st)[i := snd v])" by auto
  show ?case
  proof (cases "j \<in> set js")
    case True
    from Cons.IH [OF r True] Cons.prems st1 show ?thesis by simp
  next
    case False
    with Cons.prems have ij: "i = j" by simp
    from run_loop_untouched [OF r False] st1 ij Cons.prems
    have "fst st' ! j = fst v" "snd st' ! j = snd v" by simp_all
    with v ij show ?thesis by simp
  qed
qed

lemma unmasked_iff: "j \<in> set (unmasked msk) \<longleftrightarrow> j < length msk \<and> \<not> msk ! j"
  by (auto simp: unmasked_def)

lemma exec_loop_Inr:
  assumes "exec_loop ext s a bd msk = Inr (zl, sl)"
  shows "\<exists>ai. linalg_inv ext a = Some ai
     \<and> run_loop (exec_loop_body s ai (length (X_ADJUSTED s)) bd) (unmasked msk)
         (replicate (length bd) 0, replicate (length bd) 0) = Inr (data zl, data sl)
     \<and> dims zl = [length bd] \<and> dims sl = [length bd] \<and> ma_mask zl = None \<and> ma_mask sl = None"
  using assms by (auto simp: exec_loop_def Let_def split: option.splits sum.splits)

lemma dense_weights_row:
  "j < length b \<Longrightarrow> dense_weights ai b ! j = map (\<lambda>arow. dot arow (b ! j)) ai"
  by (simp add: dense_weights_def)

lemma dense_weights_length: "length (dense_weights ai b) = length b"
  by (simp add: dense_weights_def)

lemma exec_vector_weights_Inr:
  assumes "exec_vector_weights ext s a bd msk = Inr (sill, b, x)"
  shows "\<exists>ai rest. linalg_inv ext a = Some ai
    \<and> variogram_model_parameters s = sill # rest
    \<and> assign_rows (length (X_ADJUSTED s))
         (map (map (\<lambda>h. sill - variogram_function s (variogram_model_parameters s) h)) bd) = Inr b
    \<and> (list_ex Not msk \<longrightarrow> length msk = length bd)
    \<and> list_all (\<lambda>row. length row = length (X_ADJUSTED s)) ai
    \<and> (length ai = length (X_ADJUSTED s) \<or> length bd = 0)
    \<and> x = dense_weights ai b"
  using assms
  by (auto simp: exec_vector_weights_def Let_def
      split: option.splits list.splits sum.splits if_splits)

lemma exec_vector_Inr:
  assumes "exec_vector ext s a bd msk = Inr (zv, sv)"
  shows "\<exists>sill b x. exec_vector_weights ext s a bd msk = Inr (sill, b, x)
    \<and> broadcastable (length (X_ADJUSTED s)) (length (Z s))
    \<and> data zv = map2 (\<lambda>xrow h. if h then 0 else sum_list (multiply xrow (Z s))) x
                  (if list_ex Not msk then msk else replicate (length bd) False)
    \<and> data sv = map2 (\<lambda>xb h. if h then sill else sill - sum_list (multiply (fst xb) (snd xb)))
                  (zip x b) (if list_ex Not msk then msk else replicate (length bd) False)"
  using assms
  by (auto simp: exec_vector_def Let_def split: sum.splits if_splits)

text \<open>
  The two values of the dense backend at the query point \<open>j\<close>: under the flag of a
  masked point 0 and the sill, otherwise the values of the per-point solve.
\<close>

lemma exec_vector_entry:
  assumes v: "exec_vector ext s a bd msk = Inr (zv, sv)" and ai: "linalg_inv ext a = Some ai"
    and j: "j < length bd"
  shows "if list_ex Not msk \<and> msk ! j
         then data zv ! j = 0 \<and> data sv ! j = hd (variogram_model_parameters s)
         else krige_point s ai (length (X_ADJUSTED s)) (bd ! j) = Inr (data zv ! j, data sv ! j)"
proof -
  let ?n = "length (X_ADJUSTED s)"
  let ?ps = "variogram_model_parameters s"
  define hidden where "hidden = (if list_ex Not msk then msk else replicate (length bd) False)"
  from exec_vector_Inr [OF v] obtain sill b x where
    w: "exec_vector_weights ext s a bd msk = Inr (sill, b, x)"
    and bc: "broadcastable ?n (length (Z s))"
    and zv: "data zv = map2 (\<lambda>xrow h. if h then 0 else sum_list (multiply xrow (Z s))) x hidden"
    and sv: "data sv = map2 (\<lambda>xb h. if h then sill else sill - sum_list (multiply (fst xb) (snd xb)))
                  (zip x b) hidden"
    unfolding hidden_def by blast
  from exec_vector_weights_Inr [OF w] ai j obtain rest where
    ps: "?ps = sill # rest"
    and b: "assign_rows ?n (map (map (\<lambda>h. sill - variogram_function s ?ps h)) bd) = Inr b"
    and lm: "list_ex Not msk \<longrightarrow> length msk = length bd"
    and rows: "list_all (\<lambda>row. length row = ?n) ai" and len: "length ai = ?n"
    and x: "x = dense_weights ai b"
    by auto
  have lb: "length b = length bd" using assign_rows_length [OF b] by simp
  have lx: "length x = length bd" by (simp add: x dense_weights_length lb)
  have lh: "length hidden = length bd" using lm by (simp add: hidden_def)
  have hj: "hidden ! j = (list_ex Not msk \<and> msk ! j)" using j by (simp add: hidden_def)
  have bj: "assign_row ?n (map (\<lambda>h. sill - variogram_function s ?ps h) (bd ! j)) = Inr (b ! j)"
    using assign_rows_row [OF b, of j] j by simp
  have xj: "x ! j = map (\<lambda>arow. dot arow (b ! j)) ai"
    using j lb by (simp add: x dense_weights_row)
  have z: "data zv ! j = (if hidden ! j then 0 else sum_list (multiply (x ! j) (Z s)))"
    using zv lx lh j by simp
  have sg: "data sv ! j = (if hidden ! j then sill
                          else sill - sum_list (multiply (x ! j) (b ! j)))"
    using sv lx lb lh j by simp
  show ?thesis
  proof (cases "list_ex Not msk \<and> msk ! j")
    case True
    with z sg hj ps have "data zv ! j = 0 \<and> data sv ! j = hd ?ps" by simp
    with True show ?thesis by auto
  next
    case False
    with z sg hj have "data zv ! j = sum_list (multiply (x ! j) (Z s))"
      and "data sv ! j = sill - sum_list (multiply (x ! j) (b ! j))" by simp_all
    with ps bj rows len bc xj
    have "krige_point s ai ?n (bd ! j) = Inr (data zv ! j, data sv ! j)"
      by (simp add: krige_point_def Let_def broadcastable_def)
    with False show ?thesis by auto
  qed
qed

lemma exec_vector_values:
  assumes "exec_vector ext s a bd msk = Inr (zv, sv)" "linalg_inv ext a = Some ai"
    "j < length bd" "\<not> (list_ex Not msk \<and> msk ! j)"
  shows "krige_point s ai (length (X_ADJUSTED s)) (bd ! j) = Inr (data zv ! j, data sv ! j)"
  using exec_vector_entry [OF assms(1,2,3)] assms(4) by simp

lemma exec_vector_shape:
  assumes "exec_vector ext s a bd msk = Inr (zv, sv)"
  shows "dims zv = [length bd] \<and> dims sv = [length bd]
    \<and> length (data zv) = length bd \<and> length (data sv) = length bd
    \<and> ma_mask sv = ma_mask zv
    \<and> ma_mask zv = (if list_ex Not msk
         then Some (map (list_all (\<lambda>m. m)) (map (replicate (length (X_ADJUSTED s))) msk))
         else None)
    \<and> (list_ex Not msk \<longrightarrow> length msk = length bd)"
proof -
  from assms obtain sill rest where ps: "variogram_model_parameters s = sill # rest"
    by (auto simp: exec_vector_def exec_vector_weights_def dense_weights_def Let_def split: option.splits list.splits)
  from assms ps obtain b where b: "assign_rows (length (X_ADJUSTED s))
      (map (map (\<lambda>h. sill - variogram_function s (variogram_model_parameters s) h)) bd) = Inr b"
    by (auto simp: exec_vector_def exec_vector_weights_def dense_weights_def Let_def split: option.splits sum.splits)
  have lb: "length b = length bd" using assign_rows_length [OF b] by simp
  from assms ps b lb show ?thesis
    by (auto simp: exec_vector_def exec_vector_weights_def dense_weights_def Let_def split: if_splits option.splits)
qed

text \<open>
  C5. On the same kriging matrix, data values, query-to-data distances and mask, the
  dense backend and the point-loop backend return the same estimate and the same
  variance at every unmasked query point. In exact arithmetic the two values are
  equal, not only close: both are the values \<open>krige_point\<close> computes from the
  inverse and the distances of that point.
\<close>

theorem dense_loop_agree:
  assumes "exec_vector ext s a bd msk = Inr (zv, sv)"
    and "exec_loop ext s a bd msk = Inr (zl, sl)"
    and "j < length bd" and "j < length msk" and "\<not> msk ! j"
  shows "data zv ! j = data zl ! j \<and> data sv ! j = data sl ! j"
proof -
  from exec_loop_Inr [OF assms(2)] obtain ai where ai: "linalg_inv ext a = Some ai"
    and run: "run_loop (exec_loop_body s ai (length (X_ADJUSTED s)) bd) (unmasked msk)
         (replicate (length bd) 0, replicate (length bd) 0) = Inr (data zl, data sl)"
    by auto
  have "j \<in> set (unmasked msk)" using assms(4,5) by (simp add: unmasked_iff)
  from run_loop_visited [OF run this] assms(3)
  have "krige_point s ai (length (X_ADJUSTED s)) (bd ! j) = Inr (data zl ! j, data sl ! j)"
    by simp
  with exec_vector_values [OF assms(1) ai assms(3)] assms(5) show ?thesis by simp
qed

lemma run_loop_cong:
  assumes "\<And>i st. i \<in> set js \<Longrightarrow> body1 i st = body2 i st"
  shows "run_loop body1 js st = run_loop body2 js st"
  using assms by (induction js arbitrary: st) (auto split: sum.splits)

lemma exec_loop_ignores_masked_row:
  assumes "j \<notin> set (unmasked msk)"
  shows "exec_loop ext s a (bd[j := r]) msk = exec_loop ext s a bd msk"
proof -
  have "run_loop (exec_loop_body s ai n (bd[j := r])) (unmasked msk) st
      = run_loop (exec_loop_body s ai n bd) (unmasked msk) st" for ai n st
  proof (rule run_loop_cong)
    fix i st'
    assume "i \<in> set (unmasked msk)"
    with assms have "i \<noteq> j" by auto
    then show "exec_loop_body s ai n (bd[j := r]) i st' = exec_loop_body s ai n bd i st'"
      by (simp add: exec_loop_body_def)
  qed
  then show ?thesis by (simp add: exec_loop_def Let_def split: option.splits)
qed

text \<open>
  C6, as amended. For a masked query point \<open>j\<close>: the point-loop backend leaves
  both output slots at their initial zero and its result does not depend on the
  distances of that point at all; the dense backend computes the weights of \<open>j\<close>
  as of any other point, the product of the inverse with the cross-covariances of
  \<open>j\<close>; when at least one query point is unmasked both of its results carry a mask
  that flags \<open>j\<close>, and when every query point is masked its results are plain
  arrays that hold at \<open>j\<close> the values of the per-point solve.
\<close>

theorem masked_points_loop_and_dense:
  assumes "j < length bd" and "j < length msk" and "msk ! j"
  shows "(\<forall>zl sl. exec_loop ext s a bd msk = Inr (zl, sl) \<longrightarrow> data zl ! j = 0 \<and> data sl ! j = 0)
    \<and> (\<forall>r. exec_loop ext s a (bd[j := r]) msk = exec_loop ext s a bd msk)
    \<and> (\<forall>zv sv ai. exec_vector ext s a bd msk = Inr (zv, sv) \<and> linalg_inv ext a = Some ai \<longrightarrow>
          (\<exists>sill b x. exec_vector_weights ext s a bd msk = Inr (sill, b, x)
             \<and> length x = length bd
             \<and> assign_row (length (X_ADJUSTED s))
                  (map (\<lambda>h. sill - variogram_function s (variogram_model_parameters s) h)
                     (bd ! j)) = Inr (b ! j)
             \<and> x ! j = map (\<lambda>arow. dot arow (b ! j)) ai)
          \<and> (list_ex Not msk \<longrightarrow>
               (\<exists>fl. ma_mask zv = Some fl \<and> ma_mask sv = Some fl \<and> fl ! j))
          \<and> (\<not> list_ex Not msk \<longrightarrow>
               ma_mask zv = None \<and> ma_mask sv = None
               \<and> krige_point s ai (length (X_ADJUSTED s)) (bd ! j)
                   = Inr (data zv ! j, data sv ! j)))"
proof (intro conjI allI impI)
  have nin: "j \<notin> set (unmasked msk)" using assms(3) by (simp add: unmasked_iff)
  show "exec_loop ext s a (bd[j := r]) msk = exec_loop ext s a bd msk" for r
    by (rule exec_loop_ignores_masked_row [OF nin])
  fix zl sl
  assume "exec_loop ext s a bd msk = Inr (zl, sl)"
  from exec_loop_Inr [OF this] obtain ai where
    run: "run_loop (exec_loop_body s ai (length (X_ADJUSTED s)) bd) (unmasked msk)
         (replicate (length bd) 0, replicate (length bd) 0) = Inr (data zl, data sl)"
    by auto
  from run_loop_untouched [OF run nin] assms(1)
  show "data zl ! j = 0" and "data sl ! j = 0" by simp_all
next
  fix zv sv ai
  assume h: "exec_vector ext s a bd msk = Inr (zv, sv) \<and> linalg_inv ext a = Some ai"
  then have v: "exec_vector ext s a bd msk = Inr (zv, sv)" and ai: "linalg_inv ext a = Some ai"
    by simp_all
  from exec_vector_Inr [OF v] obtain sill b x where
    w: "exec_vector_weights ext s a bd msk = Inr (sill, b, x)" by blast
  from exec_vector_weights_Inr [OF w] ai obtain rest where
    b: "assign_rows (length (X_ADJUSTED s))
         (map (map (\<lambda>h. sill - variogram_function s (variogram_model_parameters s) h)) bd) = Inr b"
    and x: "x = dense_weights ai b"
    by auto
  have lb: "length b = length bd" using assign_rows_length [OF b] by simp
  have "length x = length bd" by (simp add: x dense_weights_length lb)
  moreover have "assign_row (length (X_ADJUSTED s))
       (map (\<lambda>h. sill - variogram_function s (variogram_model_parameters s) h) (bd ! j))
       = Inr (b ! j)"
    using assign_rows_row [OF b, of j] assms(1) by simp
  moreover have "x ! j = map (\<lambda>arow. dot arow (b ! j)) ai"
    using assms(1) lb by (simp add: x dense_weights_row)
  ultimately show "\<exists>sill b x. exec_vector_weights ext s a bd msk = Inr (sill, b, x)
             \<and> length x = length bd
             \<and> assign_row (length (X_ADJUSTED s))
                  (map (\<lambda>h. sill - variogram_function s (variogram_model_parameters s) h)
                     (bd ! j)) = Inr (b ! j)
             \<and> x ! j = map (\<lambda>arow. dot arow (b ! j)) ai"
    using w by blast
  {
    assume ex: "list_ex Not msk"
    from exec_vector_shape [OF v] ex
    have m: "ma_mask zv = Some (map (list_all (\<lambda>m. m)) (map (replicate (length (X_ADJUSTED s))) msk))"
      and e: "ma_mask sv = ma_mask zv" by simp_all
    have "map (list_all (\<lambda>m. m)) (map (replicate (length (X_ADJUSTED s))) msk) ! j"
      using assms(2,3) by (simp add: list_all_iff)
    with m e show "\<exists>fl. ma_mask zv = Some fl \<and> ma_mask sv = Some fl \<and> fl ! j" by simp
  }
  assume nex: "\<not> list_ex Not msk"
  from exec_vector_shape [OF v] nex
  show "ma_mask zv = None" and "ma_mask sv = None" by simp_all
  from exec_vector_values [OF v ai assms(1)] nex
  show "krige_point s ai (length (X_ADJUSTED s)) (bd ! j) = Inr (data zv ! j, data sv ! j)"
    by simp
qed

lemma spherical_half: "spherical [2, 2, 0] (1 / 2) = 47 / 64"
  by (simp add: spherical_def power3_eq_cube)

lemma vector_two_queries:
  "exec_vector standins two_point_session [[2, 5 / 8], [5 / 8, 2]] [[1 / 2, 1 / 2], [0, 1]]
     [False, True] =
   Inr (\<lparr>dims = [2], data = [81 / 56, 0], ma_mask = Some [False, True]\<rparr>,
        \<lparr>dims = [2], data = [1397 / 1792, 2], ma_mask = Some [False, True]\<rparr>)"
  by (simp add: exec_vector_def exec_vector_weights_def dense_weights_def two_point_fields standins_fields spherical_220 spherical_half
      assign_rows_def broadcastable_def multiply_def dot_def Let_def upt_rec)

lemma loop_two_queries:
  "exec_loop standins two_point_session [[2, 5 / 8], [5 / 8, 2]] [[1 / 2, 1 / 2], [0, 1]]
     [False, True] =
   Inr (\<lparr>dims = [2], data = [81 / 56, 0], ma_mask = None\<rparr>,
        \<lparr>dims = [2], data = [1397 / 1792, 0], ma_mask = None\<rparr>)"
  by (simp add: exec_loop_def exec_loop_body_def krige_point_def unmasked_def two_point_fields
      standins_fields spherical_220 spherical_half assign_row_def broadcastable_def multiply_def
      dot_def Let_def upt_rec)


lemma weights_two_queries:
  "exec_vector_weights standins two_point_session [[2, 5 / 8], [5 / 8, 2]]
     [[1 / 2, 1 / 2], [0, 1]] [False, True] =
   Inr (2, [[81 / 64, 81 / 64], [2, 5 / 8]], [[27 / 56, 27 / 56], [1, 0]])"
  by (simp add: exec_vector_weights_def dense_weights_def two_point_fields standins_fields
      spherical_220 spherical_half assign_rows_def dot_def Let_def numeral_2_eq_2 upt_rec)

theorem dense_loop_agree_witness:
  "exec_vector standins two_point_session [[2, 5 / 8], [5 / 8, 2]] [[1 / 2, 1 / 2], [0, 1]]
     [False, True] =
   Inr (\<lparr>dims = [2], data = [81 / 56, 0], ma_mask = Some [False, True]\<rparr>,
        \<lparr>dims = [2], data = [1397 / 1792, 2], ma_mask = Some [False, True]\<rparr>)
   \<and> exec_loop standins two_point_session [[2, 5 / 8], [5 / 8, 2]] [[1 / 2, 1 / 2], [0, 1]]
     [False, True] =
   Inr (\<lparr>dims = [2], data = [81 / 56, 0], ma_mask = None\<rparr>,
        \<lparr>dims = [2], data = [1397 / 1792, 0], ma_mask = None\<rparr>)
   \<and> [81 / 56, 0 :: real] ! 0 = [81 / 56, 0] ! 0
   \<and> [1397 / 1792, 2 :: real] ! 0 = [1397 / 1792, 0] ! 0"
  using dense_loop_agree [OF vector_two_queries loop_two_queries, of 0]
    vector_two_queries loop_two_queries
  by simp

theorem masked_points_loop_and_dense_witness:
  "exec_loop standins two_point_session [[2, 5 / 8], [5 / 8, 2]] [[1 / 2, 1 / 2], [7, 9]]
     [False, True] =
   Inr (\<lparr>dims = [2], data = [81 / 56, 0], ma_mask = None\<rparr>,
        \<lparr>dims = [2], data = [1397 / 1792, 0], ma_mask = None\<rparr>)
   \<and> exec_vector standins two_point_session [[2, 5 / 8], [5 / 8, 2]] [[1 / 2, 1 / 2], [0, 1]]
     [False, True] =
   Inr (\<lparr>dims = [2], data = [81 / 56, 0], ma_mask = Some [False, True]\<rparr>,
        \<lparr>dims = [2], data = [1397 / 1792, 2], ma_mask = Some [False, True]\<rparr>)
   \<and> exec_vector_weights standins two_point_session [[2, 5 / 8], [5 / 8, 2]]
       [[1 / 2, 1 / 2], [0, 1]] [False, True] =
   Inr (2, [[81 / 64, 81 / 64], [2, 5 / 8]], [[27 / 56, 27 / 56], [1, 0]])
   \<and> [False, True] ! 1"
  using masked_points_loop_and_dense [of 1 "[[1 / 2, 1 / 2], [0, 1]]" "[False, True]"
      standins two_point_session "[[2, 5 / 8], [5 / 8, 2]]"]
    vector_two_queries loop_two_queries weights_two_queries
  by (simp add: standins_fields two_point_fields numeral_2_eq_2)

text \<open>
  C6, as stated, fails when every query point is masked: the guard
  \<open>if (~mask).any()\<close> is then false, the cross-covariances stay a plain array, and
  the dense backend returns the computed values of the masked point with no mask.
\<close>

theorem dense_all_masked_not_marked:
  "exec_vector standins two_point_session [[2, 5 / 8], [5 / 8, 2]] [[0, 1]] [True] =
   Inr (\<lparr>dims = [1], data = [1], ma_mask = None\<rparr>,
        \<lparr>dims = [1], data = [0], ma_mask = None\<rparr>)"
  by (simp add: exec_vector_def exec_vector_weights_def dense_weights_def two_point_fields standins_fields spherical_220
      assign_rows_def broadcastable_def multiply_def dot_def Let_def)

lemma run_loop_returns:
  assumes "\<And>j st. j \<in> set js \<Longrightarrow> \<exists>st'. body j st = Inr st'"
  shows "\<exists>st'. run_loop body js st = Inr st'"
  using assms
proof (induction js arbitrary: st)
  case Nil
  then show ?case by simp
next
  case (Cons j js)
  from Cons.prems [of j st] obtain st1 where b: "body j st = Inr st1" by auto
  from Cons.IH [of st1] Cons.prems obtain st' where "run_loop body js st1 = Inr st'"
    by auto
  with b show ?case by simp
qed

text \<open>
  On well-shaped inputs both backends return. When the
  inversion succeeds with a matrix of the size of the data set, the variogram has
  parameters, and the distances, the data values and the mask have the sizes that
  \<open>execute\<close> gives them, neither \<open>_exec_vector\<close> nor \<open>_exec_loop\<close> raises.
\<close>

theorem backends_return:
  assumes "linalg_inv ext a = Some ai"
    and "length ai = length (X_ADJUSTED s)"
    and "list_all (\<lambda>row. length row = length (X_ADJUSTED s)) ai"
    and "variogram_model_parameters s \<noteq> []"
    and "list_all (\<lambda>row. length row = length (X_ADJUSTED s)) bd"
    and "length (Z s) = length (X_ADJUSTED s)"
    and "length msk = length bd"
  shows "(\<exists>r. exec_vector ext s a bd msk = Inr r) \<and> (\<exists>r. exec_loop ext s a bd msk = Inr r)"
proof
  let ?n = "length (X_ADJUSTED s)"
  from assms(4) obtain sill rest where ps: "variogram_model_parameters s = sill # rest"
    by (cases "variogram_model_parameters s") auto
  have rows: "assign_rows ?n (map (map (\<lambda>h. sill - variogram_function s (sill # rest) h)) bd)
      = Inr (map (map (\<lambda>h. sill - variogram_function s (sill # rest) h)) bd)"
    using assms(5) by (simp add: assign_rows_def list_all_iff)
  show "\<exists>r. exec_vector ext s a bd msk = Inr r"
    using assms(1,2,3,6,7) ps rows
    by (simp add: exec_vector_def exec_vector_weights_def dense_weights_def Let_def broadcastable_def)
  have body: "\<exists>st'. exec_loop_body s ai ?n bd j st = Inr st'" if "j \<in> set (unmasked msk)" for j st
  proof -
    from that assms(7) have j: "j < length bd" by (simp add: unmasked_iff)
    with assms(5) have "length (bd ! j) = ?n" by (simp add: list_all_length)
    then have "assign_row ?n (map (\<lambda>h. sill - variogram_function s (sill # rest) h) (bd ! j))
      = Inr (map (\<lambda>h. sill - variogram_function s (sill # rest) h) (bd ! j))"
      by (simp add: assign_row_def)
    with j ps assms(2,3,6) show ?thesis
      by (simp add: exec_loop_body_def krige_point_def Let_def broadcastable_def)
  qed
  from run_loop_returns [of "unmasked msk" "exec_loop_body s ai ?n bd", OF body]
  obtain st' where "run_loop (exec_loop_body s ai ?n bd) (unmasked msk)
      (replicate (length bd) 0, replicate (length bd) 0) = Inr st'" by blast
  with assms(1) show "\<exists>r. exec_loop ext s a bd msk = Inr r"
    by (simp add: exec_loop_def Let_def)
qed

lemma two_point_inverse:
  "small_inv [[2, 5 / 8], [5 / 8, 2]]
     = Some [[128 / 231, - (40 / 231)], [- (40 / 231), 128 / 231]]"
  by simp

theorem backends_return_witness:
  "(\<exists>r. exec_vector standins two_point_session [[2, 5 / 8], [5 / 8, 2]]
          [[1 / 2, 1 / 2], [0, 1]] [False, True] = Inr r)
   \<and> (\<exists>r. exec_loop standins two_point_session [[2, 5 / 8], [5 / 8, 2]]
          [[1 / 2, 1 / 2], [0, 1]] [False, True] = Inr r)"
  using backends_return [of standins "[[2, 5 / 8], [5 / 8, 2]]"
      "[[128 / 231, - (40 / 231)], [- (40 / 231), 128 / 231]]" two_point_session
      "[[1 / 2, 1 / 2], [0, 1]]" "[False, True]"] two_point_inverse
  by (simp add: standins_fields two_point_fields)

subsection \<open>The mask check of execute\<close>

lemma check_mask_transposed:
  assumes "shape0 m = nx" "shape1 m = ny" "shape0 m \<noteq> ny \<or> shape1 m \<noteq> nx"
  shows "check_mask (Some m) ny nx = Inr (cells (transpose_mask m))"
    and "check_mask (Some (transpose_mask m)) ny nx = Inr (cells (transpose_mask m))"
  using assms by (auto simp: check_mask_def transpose_mask_def)

lemma query_set_masked:
  "query_set ''masked'' xp yp msk =
     (case check_mask msk (length yp) (length xp) of
        Inl e \<Rightarrow> Inl e
      | Inr f \<Rightarrow> Inr (concat (replicate (length yp) xp), concat (map (replicate (length xp)) yp),
                       length yp * length xp, Some f))"
  by (simp add: query_set_def Let_def split: sum.splits)

lemma execute_query_set_error:
  assumes "variogram_model s \<noteq> ''linear''" "variogram_model s \<noteq> ''power''"
    and "get_kriging_matrix s (length (X_ADJUSTED s)) = Inr a"
    and "query_set style xp yp msk = Inl e"
    and "style = ''grid'' \<or> style = ''masked'' \<or> style = ''points''"
  shows "execute ext s style xp yp msk backend k = Inl e"
  using assms by (auto simp: execute_def Let_def)

lemma execute_never_returns:
  assumes "query_set style xp yp msk = Inl e"
  shows "execute ext s style xp yp msk backend k \<noteq> Inr r"
  using assms by (auto simp: execute_def Let_def split: sum.splits)

lemma execute_accepts:
  assumes "query_set style xp yp msk = Inr q"
  shows "execute ext s style xp yp msk backend k \<noteq> Inl MaskMissing
    \<and> execute ext s style xp yp msk backend k \<noteq> Inl MaskDimensions"
proof (cases "variogram_model s = ''linear'' \<or> variogram_model s = ''power''")
  case True
  then show ?thesis by (auto simp: execute_def)
next
  case n: False
  from assms have st: "style = ''grid'' \<or> style = ''masked'' \<or> style = ''points''"
    by (auto simp: query_set_def Let_def split: if_splits)
  show ?thesis
  proof (cases "get_kriging_matrix s (length (X_ADJUSTED s))")
    case (Inl e1)
    with n st get_kriging_matrix_errors [of s "length (X_ADJUSTED s)" e1] show ?thesis
      by (auto simp: execute_def Let_def)
  next
    case a: (Inr a)
    obtain xpts ypts npt flat where q: "q = (xpts, ypts, npt, flat)" by (cases q) auto
    from n have n1: "variogram_model s \<noteq> ''linear''" and n2: "variogram_model s \<noteq> ''power''"
      by auto
    note u = execute_unfold [OF n1 n2 a assms [unfolded q], of ext backend k]
    show ?thesis
      using krige_queries_errors [of ext s style "length yp" "length xp" a _ _ _ backend k
          MaskMissing]
        krige_queries_errors [of ext s style "length yp" "length xp" a _ _ _ backend k
          MaskDimensions]
      unfolding u by auto
  qed
qed

subsection \<open>The shape of the results\<close>

lemma finish_points: "finish ''points'' msk ny nx v = Inr v"
  by (simp add: finish_def)

lemma finish_grid:
  assumes "finish style msk ny nx v = Inr w" "style = ''grid'' \<or> style = ''masked''"
  shows "dims w = [ny, nx] \<and> length (data w) = ny * nx"
  using assms by (auto simp: finish_def ma_array_def reshape_def split: sum.splits if_splits)

lemma finish_masked:
  assumes "finish ''masked'' msk ny nx v = Inr w"
  shows "ma_mask w = Some (case ma_mask v of None \<Rightarrow> msk | Some m0 \<Rightarrow> map2 (\<or>) m0 msk)
    \<and> length msk = ny * nx"
  using assms by (auto simp: finish_def ma_array_def reshape_def split: sum.splits if_splits)

lemma run_loop_invariant:
  assumes "\<And>j st st'. body j st = Inr st' \<Longrightarrow> P st \<Longrightarrow> P st'"
    and "run_loop body js st = Inr st'" and "P st"
  shows "P st'"
  using assms(2,3)
proof (induction js arbitrary: st)
  case Nil
  then show ?case by simp
next
  case (Cons j js)
  then obtain st1 where b: "body j st = Inr st1" and r: "run_loop body js st1 = Inr st'"
    by (auto split: sum.splits)
  from assms(1) [OF b Cons.prems(2)] Cons.IH [OF r] show ?case by simp
qed

lemma moving_window_body_lengths:
  assumes "moving_window_body ext s a n bd idx i st = Inr st'"
  shows "length (fst st') = length (fst st) \<and> length (snd st') = length (snd st)"
  using assms
  by (auto simp: moving_window_body_def Let_def split: sum.splits list.splits if_splits)

lemma exec_loop_body_lengths:
  assumes "exec_loop_body s ai n bd j st = Inr st'"
  shows "length (fst st') = length (fst st) \<and> length (snd st') = length (snd st)"
  using assms by (auto simp: exec_loop_body_def split: sum.splits if_splits)

lemma exec_loop_shape:
  assumes "exec_loop ext s a bd msk = Inr (zl, sl)"
  shows "dims zl = [length bd] \<and> dims sl = [length bd]
    \<and> length (data zl) = length bd \<and> length (data sl) = length bd
    \<and> ma_mask zl = None \<and> ma_mask sl = None"
proof -
  from assms obtain ai where run: "run_loop (exec_loop_body s ai (length (X_ADJUSTED s)) bd)
      (unmasked msk) (replicate (length bd) 0, replicate (length bd) 0) = Inr (data zl, data sl)"
    and d: "dims zl = [length bd] \<and> dims sl = [length bd] \<and> ma_mask zl = None \<and> ma_mask sl = None"
    by (auto simp: exec_loop_def Let_def split: option.splits sum.splits)
  have "length (fst (data zl, data sl)) = length bd \<and> length (snd (data zl, data sl)) = length bd"
    by (rule run_loop_invariant [OF _ run,
          where P = "\<lambda>st. length (fst st) = length bd \<and> length (snd st) = length bd"])
       (use exec_loop_body_lengths in auto)
  with d show ?thesis by simp
qed

lemma moving_window_shape:
  assumes "exec_loop_moving_window ext s a bd msk idx = Inr (zl, sl)"
  shows "dims zl = [length bd] \<and> dims sl = [length bd]
    \<and> length (data zl) = length bd \<and> length (data sl) = length bd
    \<and> ma_mask zl = None \<and> ma_mask sl = None"
proof -
  from assms obtain n where run: "run_loop (moving_window_body ext s a n bd idx)
      (unmasked msk) (replicate (length bd) 0, replicate (length bd) 0) = Inr (data zl, data sl)"
    and d: "dims zl = [length bd] \<and> dims sl = [length bd] \<and> ma_mask zl = None \<and> ma_mask sl = None"
    by (auto simp: exec_loop_moving_window_def Let_def split: option.splits sum.splits)
  have "length (fst (data zl, data sl)) = length bd \<and> length (snd (data zl, data sl)) = length bd"
    by (rule run_loop_invariant [OF _ run,
          where P = "\<lambda>st. length (fst st) = length bd \<and> length (snd st) = length bd"])
       (use moving_window_body_lengths in auto)
  with d show ?thesis by simp
qed

lemma row_flags: "n \<noteq> 0 \<Longrightarrow> map (list_all (\<lambda>m. m)) (map (replicate n) msk) = msk"
  by (induction msk) (auto simp: list_all_iff)

lemma map2_or_self: "map2 (\<or>) m m = m"
  by (induction m) auto

lemma run_backend_shape:
  assumes "run_backend ext s a xy_points xy_data msk backend k = Inr (z0, s0)"
  shows "dims z0 = [length (data z0)] \<and> dims s0 = [length (data s0)]
    \<and> length (data z0) =
        (case k of None \<Rightarrow> length xy_points
         | Some k' \<Rightarrow> length (fst (kdtree_query ext xy_data xy_points k')))
    \<and> length (data s0) = length (data z0)
    \<and> (X_ADJUSTED s \<noteq> [] \<longrightarrow>
          (ma_mask z0 = None \<or> ma_mask z0 = Some msk)
          \<and> (ma_mask s0 = None \<or> ma_mask s0 = Some msk))"
proof (cases k)
  case (Some k')
  with assms have "exec_loop_moving_window ext s a (fst (kdtree_query ext xy_data xy_points k'))
       msk (snd (kdtree_query ext xy_data xy_points k')) = Inr (z0, s0)"
    by (auto simp: run_backend_def Let_def split: if_splits)
  from moving_window_shape [OF this] Some show ?thesis by simp
next
  case None
  show ?thesis
  proof (cases "backend = ''vectorized''")
    case True
    with assms None have v: "exec_vector ext s a (cdist xy_points xy_data) msk = Inr (z0, s0)"
      by (simp add: run_backend_def)
    from exec_vector_shape [OF v] row_flags [of "length (X_ADJUSTED s)" msk] None
    show ?thesis by (auto simp: cdist_def)
  next
    case False
    with assms None have "exec_loop ext s a (cdist xy_points xy_data) msk = Inr (z0, s0)"
      by (auto simp: run_backend_def split: if_splits)
    from exec_loop_shape [OF this] None show ?thesis by (simp add: cdist_def)
  qed
qed

lemma krige_queries_Inr:
  assumes "krige_queries ext s style ny nx a xa ya msk1 backend k = Inr (zv, sv)"
  shows "\<exists>z0 s0. length xa = length ya
    \<and> run_backend ext s a (zip xa ya) (zip (X_ADJUSTED s) (Y_ADJUSTED s)) msk1 backend k
        = Inr (z0, s0)
    \<and> finish style msk1 ny nx z0 = Inr zv \<and> finish style msk1 ny nx s0 = Inr sv"
  using assms
  by (auto simp: krige_queries_def column_pairs_def split: sum.splits if_splits)

lemma execute_Inr:
  assumes "execute ext s style xp yp msk backend k = Inr r"
  shows "\<exists>a xpts ypts npt flat.
      variogram_model s \<noteq> ''linear'' \<and> variogram_model s \<noteq> ''power''
    \<and> get_kriging_matrix s (length (X_ADJUSTED s)) = Inr a
    \<and> query_set style xp yp msk = Inr (xpts, ypts, npt, flat)
    \<and> krige_queries ext s style (length yp) (length xp) a
       (fst (adjust_for_anisotropy ext xpts ypts (XCENTER s) (YCENTER s)
              (anisotropy_scaling s) (anisotropy_angle s)))
       (snd (adjust_for_anisotropy ext xpts ypts (XCENTER s) (YCENTER s)
              (anisotropy_scaling s) (anisotropy_angle s)))
       (if style \<noteq> ''masked'' then replicate npt False
        else (case flat of None \<Rightarrow> [] | Some f \<Rightarrow> f))
       backend k = Inr r"
proof -
  from assms have n: "variogram_model s \<noteq> ''linear''" "variogram_model s \<noteq> ''power''"
    by (auto simp: execute_def split: if_splits)
  from assms n obtain a where a: "get_kriging_matrix s (length (X_ADJUSTED s)) = Inr a"
    by (cases "get_kriging_matrix s (length (X_ADJUSTED s))")
       (auto simp: execute_def Let_def split: if_splits)
  from assms n a obtain q where q: "query_set style xp yp msk = Inr q"
    by (cases "query_set style xp yp msk") (auto simp: execute_def Let_def split: if_splits)
  obtain xpts ypts npt flat where qq: "q = (xpts, ypts, npt, flat)" by (cases q) auto
  from execute_unfold [OF n a q [unfolded qq], of ext backend k] assms n a q qq
  show ?thesis by auto
qed

lemma query_set_points:
  assumes "query_set ''points'' xp yp msk = Inr (xpts, ypts, npt, flat)"
  shows "xpts = xp \<and> ypts = yp \<and> npt = length xp \<and> length yp = length xp"
  using assms by (auto simp: query_set_def Let_def split: if_splits)

lemma query_set_masked_Inr:
  assumes "query_set ''masked'' xp yp msk = Inr (xpts, ypts, npt, flat)"
  shows "\<exists>m. msk = Some m
    \<and> flat = Some (if shape0 m = length yp \<and> shape1 m = length xp then cells m
                   else cells (transpose_mask m))"
  using assms
  by (auto simp: query_set_def check_mask_def Let_def map_sum_def
      split: if_splits option.splits sum.splits)

lemma concat_grid_length:
  "length (concat (map (\<lambda>c. map (f c) [0..<n]) [0..<k])) = k * n"
  by (induction k) simp_all

lemma concat_grid_nth:
  "c < k \<Longrightarrow> r < n \<Longrightarrow> concat (map (\<lambda>c. map (f c) [0..<n]) [0..<k]) ! (c * n + r) = f c r"
proof (induction k)
  case 0
  then show ?case by simp
next
  case (Suc k)
  show ?case
  proof (cases "c < k")
    case True
    then have "Suc c \<le> k" by simp
    then have "Suc c * n \<le> k * n" by (rule mult_le_mono1)
    with Suc.prems(2) have "c * n + r < k * n" by simp
    with Suc.IH [OF True Suc.prems(2)] show ?thesis
      by (simp add: nth_append concat_grid_length)
  next
    case False
    with Suc.prems(1) have "c = k" by simp
    with Suc.prems(2) show ?thesis by (simp add: nth_append concat_grid_length)
  qed
qed

lemma transpose_mask_cells:
  "shape0 (transpose_mask m) = shape1 m" "shape1 (transpose_mask m) = shape0 m"
  "length (cells (transpose_mask m)) = shape1 m * shape0 m"
  "r < shape1 m \<Longrightarrow> c < shape0 m \<Longrightarrow>
     cells (transpose_mask m) ! (r * shape0 m + c) = cells m ! (c * shape1 m + r)"
  by (simp_all add: transpose_mask_def concat_grid_length concat_grid_nth)

lemma execute_masked_flags:
  assumes "execute ext s ''masked'' xp yp msk backend k = Inr (zv, sv)"
    and "X_ADJUSTED s \<noteq> []"
  shows "\<exists>f. check_mask msk (length yp) (length xp) = Inr f
    \<and> ma_mask zv = Some f \<and> ma_mask sv = Some f"
proof -
  from execute_Inr [OF assms(1)] obtain a xpts ypts npt flat where
    q: "query_set ''masked'' xp yp msk = Inr (xpts, ypts, npt, flat)"
    and kq: "krige_queries ext s ''masked'' (length yp) (length xp) a
       (fst (adjust_for_anisotropy ext xpts ypts (XCENTER s) (YCENTER s)
              (anisotropy_scaling s) (anisotropy_angle s)))
       (snd (adjust_for_anisotropy ext xpts ypts (XCENTER s) (YCENTER s)
              (anisotropy_scaling s) (anisotropy_angle s)))
       (if ''masked'' \<noteq> ''masked'' then replicate npt False
        else (case flat of None \<Rightarrow> [] | Some f \<Rightarrow> f))
       backend k = Inr (zv, sv)"
    by blast
  from q obtain f where c: "check_mask msk (length yp) (length xp) = Inr f"
    and fl: "flat = Some f"
    by (auto simp: query_set_masked split: sum.splits)
  define xa where "xa = fst (adjust_for_anisotropy ext xpts ypts (XCENTER s) (YCENTER s)
              (anisotropy_scaling s) (anisotropy_angle s))"
  define ya where "ya = snd (adjust_for_anisotropy ext xpts ypts (XCENTER s) (YCENTER s)
              (anisotropy_scaling s) (anisotropy_angle s))"
  from kq fl have kq': "krige_queries ext s ''masked'' (length yp) (length xp) a xa ya f
      backend k = Inr (zv, sv)"
    by (simp add: xa_def ya_def)
  from krige_queries_Inr [OF kq'] obtain z0 s0 where
    rb: "run_backend ext s a (zip xa ya) (zip (X_ADJUSTED s) (Y_ADJUSTED s)) f backend k
        = Inr (z0, s0)"
    and fz: "finish ''masked'' f (length yp) (length xp) z0 = Inr zv"
    and fs: "finish ''masked'' f (length yp) (length xp) s0 = Inr sv"
    by blast
  from run_backend_shape [OF rb] assms(2)
  have mz: "ma_mask z0 = None \<or> ma_mask z0 = Some f"
    and ms: "ma_mask s0 = None \<or> ma_mask s0 = Some f" by simp_all
  from finish_masked [OF fz] mz have "ma_mask zv = Some f" by (auto simp: map2_or_self)
  moreover from finish_masked [OF fs] ms have "ma_mask sv = Some f" by (auto simp: map2_or_self)
  ultimately show ?thesis using c by simp
qed

lemma vector_six_queries:
  "exec_vector standins two_point_session [[2, 5 / 8], [5 / 8, 2]]
     [[0, 1], [1, 0], [0, 1], [0, 1], [1, 0], [0, 1]]
     [False, False, False, True, False, False] =
   Inr (\<lparr>dims = [6], data = [1, 2, 1, 0, 2, 1],
          ma_mask = Some [False, False, False, True, False, False]\<rparr>,
        \<lparr>dims = [6], data = [0, 0, 0, 2, 0, 0],
          ma_mask = Some [False, False, False, True, False, False]\<rparr>)"
  by (simp add: exec_vector_def exec_vector_weights_def dense_weights_def two_point_fields
      standins_fields spherical_220 assign_rows_def broadcastable_def multiply_def dot_def
      Let_def upt_rec)

lemma transposed_mask_cells:
  "transpose_mask \<lparr>shape0 = 3, shape1 = 2, cells = [False, True, False, False, False, False]\<rparr>
   = \<lparr>shape0 = 2, shape1 = 3, cells = [False, False, False, True, False, False]\<rparr>"
  by (simp add: transpose_mask_def upt_rec)

lemma execute_transposed_grid:
  "execute standins two_point_session ''masked'' [0, 1, 0] [0, 0]
     (Some \<lparr>shape0 = 3, shape1 = 2, cells = [False, True, False, False, False, False]\<rparr>)
     ''vectorized'' None =
   Inr (\<lparr>dims = [2, 3], data = [1, 2, 1, 0, 2, 1],
          ma_mask = Some [False, False, False, True, False, False]\<rparr>,
        \<lparr>dims = [2, 3], data = [0, 0, 0, 2, 0, 0],
          ma_mask = Some [False, False, False, True, False, False]\<rparr>)"
  by (simp add: execute_def two_point_matrix two_point_fields standins_fields query_set_def
      check_mask_def transposed_mask_cells krige_queries_def transform_identity column_pairs_def
      run_backend_def cdist_def euclidean_def vector_six_queries finish_def ma_array_def
      reshape_def Let_def)

text \<open>
  C7. A call of \<open>execute\<close> with the style \<open>masked\<close>: without a mask it never
  returns; with a mask shaped like the transposed grid (and not like the grid) it
  raises neither mask error and behaves exactly as with the transposed mask, which
  has the shape of the grid, one cell per grid node, and holds at row \<open>r\<close> and
  column \<open>c\<close> the cell of the given mask at row \<open>c\<close> and column \<open>r\<close>; these
  cells, in grid order, are the flat mask the query set carries and the flags of
  both results of a call that returns; with a mask of any other shape it never
  returns. Once the model check and the kriging matrix have passed, which come
  first in \<open>execute\<close>, the exception is the missing-mask error in the first case
  and the dimension-mismatch error in the last.
\<close>

theorem masked_style_mask_check:
  "(\<forall>r. execute ext s ''masked'' xp yp None backend k \<noteq> Inr r)
   \<and> (shape0 m = length xp \<and> shape1 m = length yp
        \<and> (shape0 m \<noteq> length yp \<or> shape1 m \<noteq> length xp) \<longrightarrow>
        execute ext s ''masked'' xp yp (Some m) backend k =
          execute ext s ''masked'' xp yp (Some (transpose_mask m)) backend k
        \<and> execute ext s ''masked'' xp yp (Some m) backend k \<noteq> Inl MaskDimensions
        \<and> execute ext s ''masked'' xp yp (Some m) backend k \<noteq> Inl MaskMissing
        \<and> shape0 (transpose_mask m) = length yp \<and> shape1 (transpose_mask m) = length xp
        \<and> length (cells (transpose_mask m)) = length yp * length xp
        \<and> (\<forall>r < length yp. \<forall>c < length xp.
              cells (transpose_mask m) ! (r * length xp + c) = cells m ! (c * length yp + r))
        \<and> query_set ''masked'' xp yp (Some m) =
            Inr (concat (replicate (length yp) xp), concat (map (replicate (length xp)) yp),
                 length yp * length xp, Some (cells (transpose_mask m)))
        \<and> (\<forall>zv sv. execute ext s ''masked'' xp yp (Some m) backend k = Inr (zv, sv)
              \<and> X_ADJUSTED s \<noteq> [] \<longrightarrow>
              ma_mask zv = Some (cells (transpose_mask m))
            \<and> ma_mask sv = Some (cells (transpose_mask m))))
   \<and> (\<not> (shape0 m = length yp \<and> shape1 m = length xp)
        \<and> \<not> (shape0 m = length xp \<and> shape1 m = length yp) \<longrightarrow>
        (\<forall>r. execute ext s ''masked'' xp yp (Some m) backend k \<noteq> Inr r))
   \<and> (variogram_model s \<noteq> ''linear'' \<and> variogram_model s \<noteq> ''power''
        \<and> get_kriging_matrix s (length (X_ADJUSTED s)) = Inr a \<longrightarrow>
        execute ext s ''masked'' xp yp None backend k = Inl MaskMissing
        \<and> (\<not> (shape0 m = length yp \<and> shape1 m = length xp)
             \<and> \<not> (shape0 m = length xp \<and> shape1 m = length yp) \<longrightarrow>
             execute ext s ''masked'' xp yp (Some m) backend k = Inl MaskDimensions))"
proof -
  have none: "query_set ''masked'' xp yp None = Inl MaskMissing"
    by (simp add: query_set_masked check_mask_def)
  have c1: "\<forall>r. execute ext s ''masked'' xp yp None backend k \<noteq> Inr r"
    using execute_never_returns [OF none] by blast
  have c3: "\<forall>r. execute ext s ''masked'' xp yp (Some m) backend k \<noteq> Inr r"
    if other: "\<not> (shape0 m = length yp \<and> shape1 m = length xp)
        \<and> \<not> (shape0 m = length xp \<and> shape1 m = length yp)"
  proof -
    from other have q: "query_set ''masked'' xp yp (Some m) = Inl MaskDimensions"
      by (auto simp: query_set_masked check_mask_def)
    from execute_never_returns [OF q] show ?thesis by blast
  qed
  have c4: "execute ext s ''masked'' xp yp None backend k = Inl MaskMissing
        \<and> (\<not> (shape0 m = length yp \<and> shape1 m = length xp)
             \<and> \<not> (shape0 m = length xp \<and> shape1 m = length yp) \<longrightarrow>
             execute ext s ''masked'' xp yp (Some m) backend k = Inl MaskDimensions)"
    if reach: "variogram_model s \<noteq> ''linear'' \<and> variogram_model s \<noteq> ''power''
        \<and> get_kriging_matrix s (length (X_ADJUSTED s)) = Inr a"
  proof (intro conjI impI)
    from reach show "execute ext s ''masked'' xp yp None backend k = Inl MaskMissing"
      using execute_query_set_error [OF _ _ _ none, of s a ext backend k] by simp
    assume other: "\<not> (shape0 m = length yp \<and> shape1 m = length xp)
        \<and> \<not> (shape0 m = length xp \<and> shape1 m = length yp)"
    then have q: "query_set ''masked'' xp yp (Some m) = Inl MaskDimensions"
      by (auto simp: query_set_masked check_mask_def)
    from reach show "execute ext s ''masked'' xp yp (Some m) backend k = Inl MaskDimensions"
      using execute_query_set_error [OF _ _ _ q, of s a ext backend k] by simp
  qed
  have c2: "execute ext s ''masked'' xp yp (Some m) backend k =
          execute ext s ''masked'' xp yp (Some (transpose_mask m)) backend k
        \<and> execute ext s ''masked'' xp yp (Some m) backend k \<noteq> Inl MaskDimensions
        \<and> execute ext s ''masked'' xp yp (Some m) backend k \<noteq> Inl MaskMissing
        \<and> shape0 (transpose_mask m) = length yp \<and> shape1 (transpose_mask m) = length xp
        \<and> length (cells (transpose_mask m)) = length yp * length xp
        \<and> (\<forall>r < length yp. \<forall>c < length xp.
              cells (transpose_mask m) ! (r * length xp + c) = cells m ! (c * length yp + r))
        \<and> query_set ''masked'' xp yp (Some m) =
            Inr (concat (replicate (length yp) xp), concat (map (replicate (length xp)) yp),
                 length yp * length xp, Some (cells (transpose_mask m)))
        \<and> (\<forall>zv sv. execute ext s ''masked'' xp yp (Some m) backend k = Inr (zv, sv)
              \<and> X_ADJUSTED s \<noteq> [] \<longrightarrow>
              ma_mask zv = Some (cells (transpose_mask m))
            \<and> ma_mask sv = Some (cells (transpose_mask m)))"
    if tr: "shape0 m = length xp \<and> shape1 m = length yp
        \<and> (shape0 m \<noteq> length yp \<or> shape1 m \<noteq> length xp)"
  proof -
    from tr have s0: "shape0 m = length xp" and s1: "shape1 m = length yp" by simp_all
    from tr have c: "check_mask (Some m) (length yp) (length xp)
        = Inr (cells (transpose_mask m))"
      by (intro check_mask_transposed(1)) auto
    from tr have ct: "check_mask (Some (transpose_mask m)) (length yp) (length xp)
         = Inr (cells (transpose_mask m))"
      by (intro check_mask_transposed(2)) auto
    from c have q: "query_set ''masked'' xp yp (Some m) =
            Inr (concat (replicate (length yp) xp), concat (map (replicate (length xp)) yp),
                 length yp * length xp, Some (cells (transpose_mask m)))"
      by (simp add: query_set_masked)
    from c ct have qq: "query_set ''masked'' xp yp (Some (transpose_mask m))
        = query_set ''masked'' xp yp (Some m)"
      by (simp add: query_set_masked)
    have e: "execute ext s ''masked'' xp yp (Some m) backend k =
            execute ext s ''masked'' xp yp (Some (transpose_mask m)) backend k"
      unfolding execute_def qq by (rule refl)
    from execute_accepts [OF q, of ext s backend k]
    have n: "execute ext s ''masked'' xp yp (Some m) backend k \<noteq> Inl MaskDimensions"
      "execute ext s ''masked'' xp yp (Some m) backend k \<noteq> Inl MaskMissing" by simp_all
    have sh: "shape0 (transpose_mask m) = length yp" "shape1 (transpose_mask m) = length xp"
      "length (cells (transpose_mask m)) = length yp * length xp"
      using transpose_mask_cells(1-3) [of m] s0 s1 by simp_all
    have cells: "\<forall>r < length yp. \<forall>c < length xp.
        cells (transpose_mask m) ! (r * length xp + c) = cells m ! (c * length yp + r)"
      using transpose_mask_cells(4) [of _ m] s0 s1 by simp
    have flags: "ma_mask zv = Some (cells (transpose_mask m))
        \<and> ma_mask sv = Some (cells (transpose_mask m))"
      if h: "execute ext s ''masked'' xp yp (Some m) backend k = Inr (zv, sv)
        \<and> X_ADJUSTED s \<noteq> []" for zv sv
      using execute_masked_flags [of ext s xp yp "Some m" backend k zv sv] h c by auto
    from e n sh cells q flags show ?thesis by blast
  qed
  from c1 c2 c3 c4 show ?thesis by blast
qed

theorem masked_style_mask_check_witness:
  "execute standins two_point_session ''masked'' [0, 1, 0] [0, 0] None ''vectorized'' None
     = Inl MaskMissing
   \<and> execute standins two_point_session ''masked'' [0, 1, 0] [0, 0]
       (Some \<lparr>shape0 = 3, shape1 = 2, cells = [False, True, False, False, False, False]\<rparr>)
       ''vectorized'' None
     = Inr (\<lparr>dims = [2, 3], data = [1, 2, 1, 0, 2, 1],
              ma_mask = Some [False, False, False, True, False, False]\<rparr>,
            \<lparr>dims = [2, 3], data = [0, 0, 0, 2, 0, 0],
              ma_mask = Some [False, False, False, True, False, False]\<rparr>)
   \<and> execute standins two_point_session ''masked'' [0, 1, 0] [0, 0]
       (Some \<lparr>shape0 = 2, shape1 = 3, cells = [False, False, False, True, False, False]\<rparr>)
       ''vectorized'' None
     = Inr (\<lparr>dims = [2, 3], data = [1, 2, 1, 0, 2, 1],
              ma_mask = Some [False, False, False, True, False, False]\<rparr>,
            \<lparr>dims = [2, 3], data = [0, 0, 0, 2, 0, 0],
              ma_mask = Some [False, False, False, True, False, False]\<rparr>)
   \<and> transpose_mask
       \<lparr>shape0 = 3, shape1 = 2, cells = [False, True, False, False, False, False]\<rparr>
     = \<lparr>shape0 = 2, shape1 = 3, cells = [False, False, False, True, False, False]\<rparr>
   \<and> [False, False, False, True, False, False] ! (1 * 3 + 0)
     = [False, True, False, False, False, False] ! (0 * 2 + 1)
   \<and> execute standins two_point_session ''masked'' [0, 1, 0] [0, 0]
       (Some \<lparr>shape0 = 3, shape1 = 3, cells = replicate 9 False\<rparr>) ''vectorized'' None
     = Inl MaskDimensions"
  using masked_style_mask_check [of standins two_point_session "[0, 1, 0]" "[0, 0]"
      "''vectorized''" None
      "\<lparr>shape0 = 3, shape1 = 2, cells = [False, True, False, False, False, False]\<rparr>"
      "[[2, 5 / 8], [5 / 8, 2]]"]
    masked_style_mask_check [of standins two_point_session "[0, 1, 0]" "[0, 0]"
      "''vectorized''" None
      "\<lparr>shape0 = 3, shape1 = 3, cells = replicate 9 False\<rparr>" "[[2, 5 / 8], [5 / 8, 2]]"]
    two_point_matrix execute_transposed_grid transposed_mask_cells
  by (simp add: two_point_fields)

text \<open>
  C8. When \<open>execute\<close> returns, both results are flat arrays with one entry per
  query point for the style \<open>points\<close>, and \<open>ny\<close> by \<open>nx\<close> arrays for the styles
  \<open>grid\<close> and \<open>masked\<close>; for the style \<open>masked\<close> both are masked arrays
  whose flags are the cells of the input mask in grid order (of its transpose, when
  the mask was given transposed), one flag per cell.
\<close>

theorem execute_output_shape:
  assumes "execute ext s style xp yp msk backend k = Inr (zv, sv)"
    and "shape_preserving ext" and "X_ADJUSTED s \<noteq> []"
  shows "(style = ''points'' \<longrightarrow>
            dims zv = [length xp] \<and> length (data zv) = length xp
          \<and> dims sv = [length xp] \<and> length (data sv) = length xp)
    \<and> (style = ''grid'' \<or> style = ''masked'' \<longrightarrow>
            dims zv = [length yp, length xp] \<and> length (data zv) = length yp * length xp
          \<and> dims sv = [length yp, length xp] \<and> length (data sv) = length yp * length xp)
    \<and> (style = ''masked'' \<longrightarrow>
          (\<exists>m. msk = Some m
             \<and> ma_mask zv = Some (if shape0 m = length yp \<and> shape1 m = length xp then cells m
                                  else cells (transpose_mask m))
             \<and> ma_mask sv = ma_mask zv
             \<and> length (if shape0 m = length yp \<and> shape1 m = length xp then cells m
                        else cells (transpose_mask m)) = length yp * length xp))"
proof -
  from execute_Inr [OF assms(1)] obtain a xpts ypts npt flat where
    q: "query_set style xp yp msk = Inr (xpts, ypts, npt, flat)"
    and kq: "krige_queries ext s style (length yp) (length xp) a
       (fst (adjust_for_anisotropy ext xpts ypts (XCENTER s) (YCENTER s)
              (anisotropy_scaling s) (anisotropy_angle s)))
       (snd (adjust_for_anisotropy ext xpts ypts (XCENTER s) (YCENTER s)
              (anisotropy_scaling s) (anisotropy_angle s)))
       (if style \<noteq> ''masked'' then replicate npt False
        else (case flat of None \<Rightarrow> [] | Some f \<Rightarrow> f))
       backend k = Inr (zv, sv)"
    by blast
  define xa where "xa = fst (adjust_for_anisotropy ext xpts ypts (XCENTER s) (YCENTER s)
              (anisotropy_scaling s) (anisotropy_angle s))"
  define ya where "ya = snd (adjust_for_anisotropy ext xpts ypts (XCENTER s) (YCENTER s)
              (anisotropy_scaling s) (anisotropy_angle s))"
  define msk1 where "msk1 = (if style \<noteq> ''masked'' then replicate npt False
        else (case flat of None \<Rightarrow> [] | Some f \<Rightarrow> f))"
  from krige_queries_Inr [OF kq [folded xa_def ya_def msk1_def]] obtain z0 s0 where
    l: "length xa = length ya"
    and rb: "run_backend ext s a (zip xa ya) (zip (X_ADJUSTED s) (Y_ADJUSTED s)) msk1 backend k
        = Inr (z0, s0)"
    and fz: "finish style msk1 (length yp) (length xp) z0 = Inr zv"
    and fs: "finish style msk1 (length yp) (length xp) s0 = Inr sv"
    by blast
  note sh = run_backend_shape [OF rb]
  have lxa: "length xa = length xpts"
    using assms(2) by (simp add: shape_preserving_def xa_def)
  have points: "dims zv = [length xp] \<and> length (data zv) = length xp
      \<and> dims sv = [length xp] \<and> length (data sv) = length xp" if st: "style = ''points''"
  proof -
    from q st have xp: "xpts = xp" using query_set_points [of xp yp msk xpts ypts npt flat] by simp
    from fz fs st have e: "zv = z0" "sv = s0" by (simp_all add: finish_points)
    have "length (data z0) = length xp"
      using sh l lxa xp assms(2) by (cases k) (simp_all add: shape_preserving_def)
    with sh e show ?thesis by simp
  qed
  have grid: "dims zv = [length yp, length xp] \<and> length (data zv) = length yp * length xp
      \<and> dims sv = [length yp, length xp] \<and> length (data sv) = length yp * length xp"
    if st: "style = ''grid'' \<or> style = ''masked''"
    using finish_grid [OF fz st] finish_grid [OF fs st] by simp
  have masked: "\<exists>m. msk = Some m
             \<and> ma_mask zv = Some (if shape0 m = length yp \<and> shape1 m = length xp then cells m
                                  else cells (transpose_mask m))
             \<and> ma_mask sv = ma_mask zv
             \<and> length (if shape0 m = length yp \<and> shape1 m = length xp then cells m
                        else cells (transpose_mask m)) = length yp * length xp"
    if st: "style = ''masked''"
  proof -
    from q st obtain m where m: "msk = Some m"
      and fl: "flat = Some (if shape0 m = length yp \<and> shape1 m = length xp then cells m
                   else cells (transpose_mask m))"
      using query_set_masked_Inr [of xp yp msk xpts ypts npt flat] by auto
    let ?c = "if shape0 m = length yp \<and> shape1 m = length xp then cells m
                   else cells (transpose_mask m)"
    from fl st have m1: "msk1 = ?c" by (simp add: msk1_def)
    from sh assms(3) have mz: "ma_mask z0 = None \<or> ma_mask z0 = Some msk1"
      and ms: "ma_mask s0 = None \<or> ma_mask s0 = Some msk1" by simp_all
    from finish_masked [OF fz [unfolded st]] mz
    have z: "ma_mask zv = Some msk1" and len: "length msk1 = length yp * length xp"
      by (auto simp: map2_or_self)
    from finish_masked [OF fs [unfolded st]] ms
    have "ma_mask sv = Some msk1" by (auto simp: map2_or_self)
    with z len m m1 show ?thesis by simp
  qed
  from points grid masked show ?thesis by blast
qed

lemma shape_preserving_standins: "shape_preserving standins"
  by (simp add: shape_preserving_def standins_def transform_def nearest_def Let_def)

lemma vector_both_data_points:
  "exec_vector standins two_point_session [[2, 5 / 8], [5 / 8, 2]] [[0, 1], [1, 0]]
     [False, True] =
   Inr (\<lparr>dims = [2], data = [1, 0], ma_mask = Some [False, True]\<rparr>,
        \<lparr>dims = [2], data = [0, 2], ma_mask = Some [False, True]\<rparr>)"
  by (simp add: exec_vector_def exec_vector_weights_def dense_weights_def two_point_fields standins_fields spherical_220
      assign_rows_def broadcastable_def multiply_def dot_def Let_def upt_rec)

lemma execute_masked_grid:
  "execute standins two_point_session ''masked'' [0, 1] [0]
     (Some \<lparr>shape0 = 1, shape1 = 2, cells = [False, True]\<rparr>) ''vectorized'' None =
   Inr (\<lparr>dims = [1, 2], data = [1, 0], ma_mask = Some [False, True]\<rparr>,
        \<lparr>dims = [1, 2], data = [0, 2], ma_mask = Some [False, True]\<rparr>)"
  by (simp add: execute_def two_point_matrix two_point_fields standins_fields query_set_def
      check_mask_def krige_queries_def transform_identity column_pairs_def run_backend_def
      cdist_def euclidean_def vector_both_data_points finish_def ma_array_def reshape_def Let_def)

theorem execute_output_shape_witness:
  "execute standins two_point_session ''masked'' [0, 1] [0]
     (Some \<lparr>shape0 = 1, shape1 = 2, cells = [False, True]\<rparr>) ''vectorized'' None =
   Inr (\<lparr>dims = [1, 2], data = [1, 0], ma_mask = Some [False, True]\<rparr>,
        \<lparr>dims = [1, 2], data = [0, 2], ma_mask = Some [False, True]\<rparr>)
   \<and> shape_preserving standins \<and> X_ADJUSTED two_point_session \<noteq> []
   \<and> dims \<lparr>dims = [1, 2], data = [1, 0], ma_mask = Some [False, True]\<rparr>
       = [length [0 :: real], length [0, 1 :: real]]
   \<and> ma_mask \<lparr>dims = [1, 2], data = [1, 0], ma_mask = Some [False, True]\<rparr>
       = Some (cells \<lparr>shape0 = 1, shape1 = 2, cells = [False, True]\<rparr>)"
  using execute_output_shape [OF execute_masked_grid shape_preserving_standins]
    execute_masked_grid shape_preserving_standins
  by (simp add: two_point_fields)

subsection \<open>The moving window and the variance at a data point\<close>

lemma nugget_fields:
  "X_ADJUSTED nugget_session = [0, 1]" "Y_ADJUSTED nugget_session = [0, 0]"
  "Z nugget_session = [1, 2]" "variogram_model_parameters nugget_session = [2, 2, 1 / 2]"
  "variogram_function nugget_session = spherical"
  "variogram_model nugget_session = ''custom''"
  "XCENTER nugget_session = 1 / 2" "YCENTER nugget_session = 0"
  "anisotropy_scaling nugget_session = 1" "anisotropy_angle nugget_session = 0"
  by (simp_all add: nugget_session_def two_point_session_def)

lemma three_point_fields:
  "X_ADJUSTED three_point_session = [0, 1, 2]" "Y_ADJUSTED three_point_session = [0, 0, 0]"
  "Z three_point_session = [1, 2, 3]" "variogram_model_parameters three_point_session = [2, 2, 0]"
  "variogram_function three_point_session = spherical"
  "variogram_model three_point_session = ''custom''"
  "XCENTER three_point_session = 1" "YCENTER three_point_session = 0"
  "anisotropy_scaling three_point_session = 1" "anisotropy_angle three_point_session = 0"
  by (simp_all add: three_point_session_def two_point_session_def)

lemma spherical_nugget: "spherical [2, 2, 1 / 2] 0 = 1 / 2" "spherical [2, 2, 1 / 2] 1 = 49 / 32"
  by (simp_all add: spherical_def power3_eq_cube)

lemma spherical_220_2: "spherical [2, 2, 0] 2 = 2"
  by (simp add: spherical_def power3_eq_cube)

lemma nugget_matrix:
  "get_kriging_matrix nugget_session (Suc (Suc 0)) = Inr [[3 / 2, 15 / 32], [15 / 32, 3 / 2]]"
  by (simp add: get_kriging_matrix_def nugget_fields spherical_nugget column_pairs_def cdist_def
      euclidean_def)

lemma three_point_matrix:
  "get_kriging_matrix three_point_session (Suc (Suc (Suc 0))) =
     Inr [[2, 5 / 8, 0], [5 / 8, 2, 5 / 8], [0, 5 / 8, 2]]"
  by (simp add: get_kriging_matrix_def three_point_fields spherical_220 spherical_220_2
      column_pairs_def cdist_def euclidean_def)

lemma nugget_vector:
  "exec_vector standins nugget_session [[3 / 2, 15 / 32], [15 / 32, 3 / 2]] [[0, 1]] [False] =
     Inr (\<lparr>dims = [1], data = [1], ma_mask = Some [False]\<rparr>,
          \<lparr>dims = [1], data = [1 / 2], ma_mask = Some [False]\<rparr>)"
  by (simp add: exec_vector_def exec_vector_weights_def dense_weights_def nugget_fields standins_fields spherical_nugget assign_rows_def
      broadcastable_def multiply_def dot_def Let_def)

lemma nugget_loop:
  "exec_loop standins nugget_session [[3 / 2, 15 / 32], [15 / 32, 3 / 2]] [[0, 1]] [False] =
     Inr (\<lparr>dims = [1], data = [1], ma_mask = None\<rparr>,
          \<lparr>dims = [1], data = [1 / 2], ma_mask = None\<rparr>)"
  by (simp add: exec_loop_def exec_loop_body_def krige_point_def unmasked_def nugget_fields
      standins_fields spherical_nugget assign_row_def broadcastable_def multiply_def dot_def Let_def)

lemma three_point_window:
  "exec_loop_moving_window standins three_point_session
     [[2, 5 / 8, 0], [5 / 8, 2, 5 / 8], [0, 5 / 8, 2]] [[0, 1]] [False] [[0, 1]] = Inl ShapeMismatch"
  by (simp add: exec_loop_moving_window_def moving_window_body_def unmasked_def a_selector_def
      submatrix_def three_point_fields spherical_220 assign_row_def solve_def Let_def)

lemma nearest_origin:
  "nearest [(0, 0), (1, 0), (2, 0)] [(0, 0)] 2 = ([[0, 1]], [[0, 1]])"
  by (simp add: nearest_def euclidean_def upt_rec Let_def)

lemma execute_nugget_vector:
  "execute standins nugget_session ''points'' [0] [0] None ''vectorized'' None =
     Inr (\<lparr>dims = [1], data = [1], ma_mask = Some [False]\<rparr>,
          \<lparr>dims = [1], data = [1 / 2], ma_mask = Some [False]\<rparr>)"
  by (simp add: execute_def nugget_matrix nugget_fields standins_fields query_set_def
      krige_queries_def transform_identity column_pairs_def run_backend_def cdist_def
      euclidean_def nugget_vector finish_def Let_def)

lemma execute_nugget_loop:
  "execute standins nugget_session ''points'' [0] [0] None ''loop'' None =
     Inr (\<lparr>dims = [1], data = [1], ma_mask = None\<rparr>,
          \<lparr>dims = [1], data = [1 / 2], ma_mask = None\<rparr>)"
  by (simp add: execute_def nugget_matrix nugget_fields standins_fields query_set_def
      krige_queries_def transform_identity column_pairs_def run_backend_def cdist_def
      euclidean_def nugget_loop finish_def Let_def)

lemma execute_three_point_window:
  "execute standins three_point_session ''points'' [0] [0] None ''loop'' (Some 2) =
     Inl ShapeMismatch"
  using three_point_window nearest_origin
  by (simp add: execute_def three_point_matrix three_point_fields standins_fields query_set_def
      krige_queries_def transform_identity column_pairs_def run_backend_def Let_def)

lemma nearest_two_points: "nearest [(0, 0), (1, 0)] [(0, 0)] 2 = ([[0, 1]], [[0, 1]])"
  by (simp add: nearest_def euclidean_def upt_rec Let_def)

lemma nugget_window:
  "exec_loop_moving_window standins nugget_session [[3 / 2, 15 / 32], [15 / 32, 3 / 2]]
     [[0, 1]] [False] [[0, 1]] = Inl ShapeMismatch"
  by (simp add: exec_loop_moving_window_def moving_window_body_def unmasked_def a_selector_def
      submatrix_def nugget_fields spherical_nugget assign_row_def solve_def Let_def)

lemma execute_nugget_window:
  "execute standins nugget_session ''points'' [0] [0] None ''loop'' (Some 2) = Inl ShapeMismatch"
  using nugget_window nearest_two_points
  by (simp add: execute_def nugget_matrix nugget_fields standins_fields query_set_def
      krige_queries_def transform_identity column_pairs_def run_backend_def Let_def)

text \<open>
  C2. Claim: the moving-window backend builds the reduced system over exactly the
  \<open>k\<close> neighbour indices, with no extra row or column, and solves it. The code
  appends the index \<open>a_all.shape[0] - 1\<close> to the selector, so the reduced matrix is
  \<open>k + 1\<close> by \<open>k + 1\<close> while the cross-covariance vector has \<open>k\<close> entries, and
  \<open>scipy.linalg.solve\<close> raises on the first unmasked query point: with three data
  points and the two nearest neighbours 0 and 1 of the query point (0,0), the
  selector is [0, 1, 2] and \<open>execute\<close> raises.
\<close>

theorem moving_window_selector_has_extra_index:
  "a_selector [[2, 5 / 8, 0], [5 / 8, 2, 5 / 8], [0, 5 / 8, 2]] [0, 1] = [0, 1, 2]
   \<and> exec_loop_moving_window standins three_point_session
       [[2, 5 / 8, 0], [5 / 8, 2, 5 / 8], [0, 5 / 8, 2]] [[0, 1]] [False] [[0, 1]]
     = Inl ShapeMismatch
   \<and> execute standins three_point_session ''points'' [0] [0] None ''loop'' (Some 2)
     = Inl ShapeMismatch"
  using three_point_window execute_three_point_window
  by (simp add: a_selector_def)

text \<open>
  C4. Claim: a query at a data point gives a variance of about 0 and an estimate of
  about that point's value, for all three backends. The docstring of \<open>execute\<close>
  promises that the variogram is forced to zero at a data point. The code forces
  nothing: with a nugget of 1/2, a query at the data point (0,0) gives the estimate
  1, the value of that point, and the variance 1/2, the nugget, from the dense and
  from the point-loop backend; the moving-window backend raises.
\<close>

theorem variance_at_data_point_is_nugget:
  "execute standins nugget_session ''points'' [0] [0] None ''vectorized'' None =
     Inr (\<lparr>dims = [1], data = [1], ma_mask = Some [False]\<rparr>,
          \<lparr>dims = [1], data = [1 / 2], ma_mask = Some [False]\<rparr>)
   \<and> execute standins nugget_session ''points'' [0] [0] None ''loop'' None =
     Inr (\<lparr>dims = [1], data = [1], ma_mask = None\<rparr>,
          \<lparr>dims = [1], data = [1 / 2], ma_mask = None\<rparr>)
   \<and> execute standins nugget_session ''points'' [0] [0] None ''loop'' (Some 2)
     = Inl ShapeMismatch"
  using execute_nugget_vector execute_nugget_loop execute_nugget_window
  by simp

subsection \<open>The moving window and the data points in general\<close>

lemma run_loop_visits:
  assumes "run_loop body js st = Inr st'" "j \<in> set js"
  shows "\<exists>st1 st2. body j st1 = Inr st2"
  using assms
proof (induction js arbitrary: st)
  case Nil
  then show ?case by simp
next
  case (Cons i js)
  then obtain st1 where b: "body i st = Inr st1" and r: "run_loop body js st1 = Inr st'"
    by (auto split: sum.splits)
  show ?case
  proof (cases "j = i")
    case True
    with b show ?thesis by blast
  next
    case False
    with Cons.prems have "j \<in> set js" by simp
    from Cons.IH [OF r this] show ?thesis .
  qed
qed

lemma submatrix_length: "submatrix a_all sel = Inr a \<Longrightarrow> length a = length sel"
  by (auto simp: submatrix_def split: if_splits)

lemma solve_lengths: "solve ext a b = Inr x \<Longrightarrow> length a = length b"
  by (auto simp: solve_def split: if_splits option.splits)

lemma moving_window_body_fails:
  assumes "list_all (\<lambda>r. length r = k) bd_idx"
  shows "moving_window_body ext s a_all (case bd_idx of [] \<Rightarrow> 0 | r # rs \<Rightarrow> length r)
           bd_all bd_idx i st \<noteq> Inr st'"
proof
  assume ok: "moving_window_body ext s a_all (case bd_idx of [] \<Rightarrow> 0 | r # rs \<Rightarrow> length r)
           bd_all bd_idx i st = Inr st'"
  then have i: "i < length bd_idx" by (auto simp: moving_window_body_def split: if_splits)
  then have ne: "bd_idx \<noteq> []" by auto
  with assms have n: "(case bd_idx of [] \<Rightarrow> 0 | r # rs \<Rightarrow> length r) = k"
    by (cases bd_idx) auto
  from assms i have li: "length (bd_idx ! i) = k" by (simp add: list_all_length)
  from ok n obtain a b x where
    a: "submatrix a_all (a_selector a_all (bd_idx ! i)) = Inr a"
    and b: "\<exists>r. assign_row k r = Inr b" and x: "solve ext a b = Inr x"
    by (auto simp: moving_window_body_def Let_def split: if_splits sum.splits list.splits)
  from submatrix_length [OF a] li have "length a = Suc k" by (simp add: a_selector_def)
  moreover from b have "length b = k" using assign_row_length by blast
  ultimately show False using solve_lengths [OF x] by simp
qed

text \<open>
  The moving window in general: whenever some query point
  is unmasked, \<open>_exec_loop_moving_window\<close> raises and returns nothing, whatever the
  matrix, the distances and the \<open>k\<close> neighbour indices per point are.
\<close>

theorem moving_window_never_returns:
  assumes "i < length msk" and "\<not> msk ! i" and "list_all (\<lambda>r. length r = k) bd_idx"
  shows "\<forall>r. exec_loop_moving_window ext s a_all bd_all msk bd_idx \<noteq> Inr r"
proof (intro allI notI)
  fix r
  assume "exec_loop_moving_window ext s a_all bd_all msk bd_idx = Inr r"
  then obtain st' where run: "run_loop (moving_window_body ext s a_all
       (case bd_idx of [] \<Rightarrow> 0 | r # rs \<Rightarrow> length r) bd_all bd_idx) (unmasked msk)
       (replicate (length bd_all) 0, replicate (length bd_all) 0) = Inr st'"
    by (auto simp: exec_loop_moving_window_def Let_def split: sum.splits)
  have "i \<in> set (unmasked msk)" using assms(1,2) by (simp add: unmasked_def)
  from run_loop_visits [OF run this] moving_window_body_fails [OF assms(3)]
  show False by blast
qed

theorem moving_window_never_returns_witness:
  "(0 :: nat) < length [False] \<and> \<not> [False] ! 0
   \<and> list_all (\<lambda>r. length r = 2) [[0, 1 :: nat]]
   \<and> (\<forall>r. exec_loop_moving_window standins three_point_session
          [[2, 5 / 8, 0], [5 / 8, 2, 5 / 8], [0, 5 / 8, 2]] [[0, 1]] [False] [[0, 1]] \<noteq> Inr r)"
  using moving_window_never_returns [of 0 "[False]" 2 "[[0, 1]]" standins three_point_session
      "[[2, 5 / 8, 0], [5 / 8, 2, 5 / 8], [0, 5 / 8, 2]]" "[[0, 1]]"]
  by simp

lemma euclidean_sym: "euclidean p q = euclidean q p"
  by (simp add: euclidean_def power2_commute)

lemma unit_vector_dot:
  assumes "i < n" "length v = n"
  shows "sum_list (map2 (*) (unit_vector n i) v) = v ! i"
proof -
  have "map2 (*) (unit_vector n i) v = map (\<lambda>r. if r = i then v ! r else 0) [0..<n]"
    using assms by (intro nth_equalityI) (auto simp: unit_vector_def)
  then have "sum_list (map2 (*) (unit_vector n i) v) = (\<Sum>r = 0..<n. if r = i then v ! r else 0)"
    by (simp add: interv_sum_list_conv_sum_set_nat)
  also have "\<dots> = v ! i" using assms by simp
  finally show ?thesis .
qed

lemma get_kriging_matrix_Inr:
  assumes "get_kriging_matrix s (length (X_ADJUSTED s)) = Inr a"
  shows "\<exists>sill rest. variogram_model_parameters s = sill # rest
    \<and> length (Y_ADJUSTED s) = length (X_ADJUSTED s)
    \<and> a = map (\<lambda>p. map (\<lambda>q. sill - variogram_function s (variogram_model_parameters s)
                                    (euclidean p q))
                     (zip (X_ADJUSTED s) (Y_ADJUSTED s)))
              (zip (X_ADJUSTED s) (Y_ADJUSTED s))"
  using assms
  by (auto simp: get_kriging_matrix_def column_pairs_def cdist_def Let_def
      split: if_splits list.splits)

lemma krige_point_Inr:
  assumes "variogram_model_parameters s = sill # rest"
    and "assign_row n (map (\<lambda>h. sill - variogram_function s (variogram_model_parameters s) h) bd)
         = Inr b"
    and "list_all (\<lambda>row. length row = n) ai"
    and "broadcastable (length ai) (length (Z s))" and "broadcastable (length ai) n"
  shows "krige_point s ai n bd =
     Inr (sum_list (multiply (map (\<lambda>arow. dot arow b) ai) (Z s)),
          sill - sum_list (multiply (map (\<lambda>arow. dot arow b) ai) b))"
  using assms by (simp add: krige_point_def Let_def)

lemma krige_point_at_data_point:
  assumes gk: "get_kriging_matrix s (length (X_ADJUSTED s)) = Inr a"
    and inv: "is_inverse ai a"
    and z: "length (Z s) = length (X_ADJUSTED s)"
    and i: "i < length (X_ADJUSTED s)"
  shows "krige_point s ai (length (X_ADJUSTED s))
           (cdist (zip (X_ADJUSTED s) (Y_ADJUSTED s)) (zip (X_ADJUSTED s) (Y_ADJUSTED s)) ! i)
         = Inr (Z s ! i, variogram_function s (variogram_model_parameters s) 0)"
proof -
  let ?n = "length (X_ADJUSTED s)"
  let ?xy = "zip (X_ADJUSTED s) (Y_ADJUSTED s)"
  let ?f = "variogram_function s (variogram_model_parameters s)"
  from get_kriging_matrix_Inr [OF gk] obtain sill rest where
    ps: "variogram_model_parameters s = sill # rest"
    and ly: "length (Y_ADJUSTED s) = ?n"
    and a: "a = map (\<lambda>p. map (\<lambda>q. sill - ?f (euclidean p q)) ?xy) ?xy"
    by blast
  have lxy: "length ?xy = ?n" using ly by simp
  have la: "length a = ?n" using a lxy by simp
  define b where "b = map (\<lambda>h. sill - ?f h) (cdist ?xy ?xy ! i)"
  have b: "b = map (\<lambda>q. sill - ?f (euclidean (?xy ! i) q)) ?xy"
    using i lxy by (simp add: b_def cdist_def)
  have lb: "length b = ?n" using b lxy by simp
  have col: "map (\<lambda>row. row ! i) a = b"
    unfolding a b using i lxy
    by (intro nth_equalityI) (simp_all add: euclidean_sym)
  from inv la i have x: "map (\<lambda>arow. dot arow b) ai = unit_vector ?n i"
    and rows: "list_all (\<lambda>row. length row = ?n) ai" and lai: "length ai = ?n"
    unfolding is_inverse_def col [symmetric] by auto
  have bi: "b ! i = sill - ?f 0"
    using i lxy by (simp add: b euclidean_self)
  have lu: "length (unit_vector ?n i) = ?n" by (simp add: unit_vector_def)
  have e1: "sum_list (multiply (unit_vector ?n i) (Z s)) = Z s ! i"
    using unit_vector_dot [OF i z] lu z by (simp add: multiply_def)
  have e2: "sum_list (multiply (unit_vector ?n i) b) = b ! i"
    using unit_vector_dot [OF i lb] lu lb by (simp add: multiply_def)
  have ar: "assign_row ?n (map (\<lambda>h. sill - ?f h) (cdist ?xy ?xy ! i)) = Inr b"
    using lb by (simp add: assign_row_def b_def)
  have bc: "broadcastable (length ai) (length (Z s))" "broadcastable (length ai) ?n"
    using lai z by (simp_all add: broadcastable_def)
  show ?thesis
    unfolding krige_point_Inr [OF ps ar rows bc] x e1 e2 bi by simp
qed

text \<open>
  What the dense and the point-loop backend return at a
  data point: when the inverse that \<open>scipy.linalg.inv\<close> returns is an inverse of the
  kriging matrix and the distances of the query point \<open>j\<close>, which is not hidden
  under a mask of the dense results, are those of the data point \<open>i\<close>, the estimate is the value of that data point and the variance is the
  variogram at distance 0 (the nugget), for every variogram function.
\<close>

theorem exact_at_data_point:
  assumes "get_kriging_matrix s (length (X_ADJUSTED s)) = Inr a"
    and "linalg_inv ext a = Some ai" and "is_inverse ai a"
    and "length (Z s) = length (X_ADJUSTED s)" and "i < length (X_ADJUSTED s)"
    and "j < length bd"
    and "bd ! j = cdist (zip (X_ADJUSTED s) (Y_ADJUSTED s)) (zip (X_ADJUSTED s) (Y_ADJUSTED s)) ! i"
  shows "(\<forall>zv sv. exec_vector ext s a bd msk = Inr (zv, sv)
              \<and> \<not> (list_ex Not msk \<and> msk ! j) \<longrightarrow>
            data zv ! j = Z s ! i
          \<and> data sv ! j = variogram_function s (variogram_model_parameters s) 0)
    \<and> (\<forall>zl sl. exec_loop ext s a bd msk = Inr (zl, sl) \<and> j < length msk \<and> \<not> msk ! j \<longrightarrow>
            data zl ! j = Z s ! i
          \<and> data sl ! j = variogram_function s (variogram_model_parameters s) 0)"
proof (intro conjI allI impI)
  note kp = krige_point_at_data_point [OF assms(1,3,4,5), folded assms(7)]
  {
    fix zv sv
    assume "exec_vector ext s a bd msk = Inr (zv, sv) \<and> \<not> (list_ex Not msk \<and> msk ! j)"
    then have v: "exec_vector ext s a bd msk = Inr (zv, sv)"
      and um: "\<not> (list_ex Not msk \<and> msk ! j)" by simp_all
    from exec_vector_values [OF v assms(2,6) um] kp
    show "data zv ! j = Z s ! i"
      and "data sv ! j = variogram_function s (variogram_model_parameters s) 0" by simp_all
  }
  fix zl sl
  assume h: "exec_loop ext s a bd msk = Inr (zl, sl) \<and> j < length msk \<and> \<not> msk ! j"
  with exec_loop_Inr [of ext s a bd msk zl sl] assms(2) have
    run: "run_loop (exec_loop_body s ai (length (X_ADJUSTED s)) bd) (unmasked msk)
         (replicate (length bd) 0, replicate (length bd) 0) = Inr (data zl, data sl)"
    by auto
  from h have "j \<in> set (unmasked msk)" by (simp add: unmasked_iff)
  from run_loop_visited [OF run this] assms(6) kp
  show "data zl ! j = Z s ! i"
    and "data sl ! j = variogram_function s (variogram_model_parameters s) 0" by simp_all
qed

lemma nugget_inverse:
  "is_inverse [[512 / 693, - (160 / 693)], [- (160 / 693), 512 / 693]]
     [[3 / 2, 15 / 32], [15 / 32, 3 / 2]]"
  by (simp add: is_inverse_def unit_vector_def dot_def less_Suc_eq numeral_2_eq_2 upt_rec)

lemma nugget_small_inv:
  "small_inv [[3 / 2, 15 / 32], [15 / 32, 3 / 2]]
     = Some [[512 / 693, - (160 / 693)], [- (160 / 693), 512 / 693]]"
  by simp

theorem exact_at_data_point_witness:
  "exec_vector standins nugget_session [[3 / 2, 15 / 32], [15 / 32, 3 / 2]] [[0, 1]] [False] =
     Inr (\<lparr>dims = [1], data = [1], ma_mask = Some [False]\<rparr>,
          \<lparr>dims = [1], data = [1 / 2], ma_mask = Some [False]\<rparr>)
   \<and> [1 :: real] ! 0 = Z nugget_session ! 0
   \<and> [1 / 2 :: real] ! 0
       = variogram_function nugget_session (variogram_model_parameters nugget_session) 0"
  using exact_at_data_point [of nugget_session "[[3 / 2, 15 / 32], [15 / 32, 3 / 2]]" standins
      "[[512 / 693, - (160 / 693)], [- (160 / 693), 512 / 693]]" 0 0 "[[0, 1]]" "[False]"]
    nugget_matrix nugget_inverse nugget_small_inv nugget_vector
  by (simp add: nugget_fields standins_fields cdist_def euclidean_def spherical_nugget)

text \<open>
  The kriging matrix in general: every diagonal entry is the first parameter minus
  the variogram at distance 0, and the matrix is symmetric.
\<close>

theorem kriging_matrix_entries:
  assumes "get_kriging_matrix s (length (X_ADJUSTED s)) = Inr a"
    and "i < length (X_ADJUSTED s)" and "j < length (X_ADJUSTED s)"
  shows "a ! i ! i = hd (variogram_model_parameters s)
                      - variogram_function s (variogram_model_parameters s) 0
    \<and> a ! i ! j = a ! j ! i"
proof -
  from get_kriging_matrix_Inr [OF assms(1)] obtain sill rest where
    ps: "variogram_model_parameters s = sill # rest"
    and ly: "length (Y_ADJUSTED s) = length (X_ADJUSTED s)"
    and a: "a = map (\<lambda>p. map (\<lambda>q. sill - variogram_function s (variogram_model_parameters s)
                                    (euclidean p q))
                     (zip (X_ADJUSTED s) (Y_ADJUSTED s)))
              (zip (X_ADJUSTED s) (Y_ADJUSTED s))"
    by blast
  show ?thesis
    unfolding a using assms(2,3) ly ps
    by (simp add: euclidean_self euclidean_sym [of "(X_ADJUSTED s ! i, Y_ADJUSTED s ! i)"])
qed

theorem kriging_matrix_entries_witness:
  "[[2, 5 / 8], [5 / 8, 2 :: real]] ! 0 ! 0 = hd [2, 2, 0] - spherical [2, 2, 0] 0
   \<and> [[2, 5 / 8], [5 / 8, 2 :: real]] ! 0 ! 1 = [[2, 5 / 8], [5 / 8, 2]] ! 1 ! 0"
  using kriging_matrix_entries [of two_point_session "[[2, 5 / 8], [5 / 8, 2]]" 0 1] two_point_matrix
  by (simp add: two_point_fields)

subsection \<open>Construction\<close>

text \<open>
  What \<open>__init__\<close> does on its own: a constructed session stores the caller's three
  arrays as they were given, and its x and y arrays are not empty (the bounding-box
  midpoint needs their maximum). The constructor compares no lengths and counts no
  points.
\<close>

theorem init_stores_arrays:
  assumes "init ext x y z vm ps vf nlags weight scaling angle st lo hi = Inr s"
  shows "X_ORIG s = x \<and> Y_ORIG s = y \<and> Z s = z \<and> x \<noteq> [] \<and> y \<noteq> []"
proof -
  from assms obtain xmax ymax where mx: "amax x = Inr xmax" and my: "amax y = Inr ymax"
    by (auto simp: init_def split: sum.splits)
  have ne: "x \<noteq> [] \<and> y \<noteq> []"
    using amax_Inr [OF mx] amax_Inr [OF my] by simp
  from assms have "X_ORIG s = x \<and> Y_ORIG s = y \<and> Z s = z"
    by (auto simp: init_def Let_def split: sum.splits option.splits if_splits)
  with ne show ?thesis by simp
qed

theorem init_stores_arrays_witness:
  "init standins [0, 1] [0, 0] [1, 2] ''custom'' (Some [2, 2, 0]) (Some spherical) 6 0 1 0
     False None None = Inr two_point_session
   \<and> X_ORIG two_point_session = [0, 1] \<and> Y_ORIG two_point_session = [0, 0]
   \<and> Z two_point_session = [1, 2]"
proof -
  have i: "init standins [0, 1] [0, 0] [1, 2] ''custom'' (Some [2, 2, 0]) (Some spherical) 6 0 1 0
     False None None = Inr two_point_session"
    by (simp add: init_def standins_def transform_identity explicit_parameters_def
        select_variogram_function_def variogram_dict_def two_point_session_def)
  from init_stores_arrays [OF i] i show ?thesis by simp
qed

text \<open>
  With non-empty x and y arrays and a model that \<open>__init__\<close> accepts, a
  construction without statistics either returns a session or fails inside the
  variogram fit of core.py: whether arrays of different lengths, or a single point,
  make a session is decided there and not in sk.py.
\<close>

theorem init_fails_only_in_fit:
  assumes "x \<noteq> []" and "y \<noteq> []" and "select_variogram_function ext vm vf = Inr f"
  shows "init ext x y z vm ps vf nlags weight scaling angle False lo hi = Inl FitError
    \<or> (\<exists>s. init ext x y z vm ps vf nlags weight scaling angle False lo hi = Inr s)"
proof -
  from assms(1) obtain x0 xs where x: "x = x0 # xs" by (cases x) auto
  from assms(2) obtain y0 ys where y: "y = y0 # ys" by (cases y) auto
  show ?thesis
    unfolding init_def x y using assms(3)
    by (simp add: Let_def split: option.splits prod.splits)
qed

theorem init_fails_only_in_fit_witness:
  "select_variogram_function standins ''custom'' (Some spherical) = Inr spherical
   \<and> init standins [0, 1] [0, 0] [1, 2] ''custom'' (Some [2, 2, 0]) (Some spherical) 6 0 1 0
     False None None \<noteq> Inl FitError
   \<and> (\<exists>s. init standins [0, 1] [0, 0] [1, 2] ''custom'' (Some [2, 2, 0]) (Some spherical)
          6 0 1 0 False None None = Inr s)"
  using init_fails_only_in_fit [of "[0, 1]" "[0, 0]" standins "''custom''" "Some spherical"
      spherical "[1, 2]" "Some [2, 2, 0]" 6 0 1 0 None None]
  by (simp add: init_def standins_def transform_identity explicit_parameters_def
      select_variogram_function_def variogram_dict_def two_point_session_def)

subsection \<open>Model update\<close>

text \<open>
  C10. A call of \<open>update_variogram_model\<close> that passes no anisotropy arguments
  leaves the scaling at 1.0 and the angle at 0.0 whatever they were, whether the call
  returns or raises; it recomputes the working-frame coordinates from the original
  ones exactly when the scaling was not 1.0 or the angle was not 0.0, and keeps them
  otherwise; the center is unchanged.
\<close>

theorem update_default_resets_anisotropy:
  "(let s' = fst (update_variogram_model_default ext s vm ps vf nlags weight)
    in anisotropy_scaling s' = 1 \<and> anisotropy_angle s' = 0
     \<and> XCENTER s' = XCENTER s \<and> YCENTER s' = YCENTER s
     \<and> (X_ADJUSTED s', Y_ADJUSTED s') =
         (if anisotropy_scaling s \<noteq> 1 \<or> anisotropy_angle s \<noteq> 0
          then adjust_for_anisotropy ext (X_ORIG s) (Y_ORIG s) (XCENTER s) (YCENTER s) 1 0
          else (X_ADJUSTED s, Y_ADJUSTED s)))"
  unfolding update_variogram_model_default_def update_variogram_model_def
  by (auto simp: Let_def split: sum.splits option.splits)

theorem update_default_resets_anisotropy_witness:
  "anisotropy_scaling (fst (update_variogram_model_default standins
      (two_point_session\<lparr>anisotropy_scaling := 2, anisotropy_angle := 30, X_ADJUSTED := [5, 7]\<rparr>)
      ''custom'' (Some [2, 2, 0]) (Some spherical) 6 0)) = 1
   \<and> anisotropy_angle (fst (update_variogram_model_default standins
      (two_point_session\<lparr>anisotropy_scaling := 2, anisotropy_angle := 30, X_ADJUSTED := [5, 7]\<rparr>)
      ''custom'' (Some [2, 2, 0]) (Some spherical) 6 0)) = 0
   \<and> X_ADJUSTED (fst (update_variogram_model_default standins
      (two_point_session\<lparr>anisotropy_scaling := 2, anisotropy_angle := 30, X_ADJUSTED := [5, 7]\<rparr>)
      ''custom'' (Some [2, 2, 0]) (Some spherical) 6 0)) = [0, 1]"
  using update_default_resets_anisotropy [of standins
      "two_point_session\<lparr>anisotropy_scaling := 2, anisotropy_angle := 30, X_ADJUSTED := [5, 7]\<rparr>"
      "''custom''" "Some [2, 2, 0]" "Some spherical" 6 0]
  by (simp add: Let_def two_point_session_def standins_def transform_identity)

end
